theory Spec2Isabelle
  imports Complex_Main "HOL-Library.Log_Nat"
begin

section \<open>Python and pandas primitives\<close>

text \<open>
  The three forecasters of FinaGen (\<^verbatim>\<open>profit_loss.py\<close>, \<^verbatim>\<open>balance_sheet.py\<close>,
  \<^verbatim>\<open>cash_flow.py\<close>) and the orchestrating script \<^verbatim>\<open>main.py\<close> are embedded as
  HOL functions. Every exception of the source is a value \<open>Inl e\<close> of a sum type.
  A Python float is the real number it denotes. The arithmetic of \<^verbatim>\<open>profit_loss.py\<close>
  is binary64 arithmetic: every operation rounds its result to the nearest double. The
  arithmetic of \<^verbatim>\<open>balance_sheet.py\<close> and \<^verbatim>\<open>cash_flow.py\<close> is that of the reals,
  without rounding.
\<close>

datatype py_error = KeyError | IndexError | ZeroDivisionError | ValueError | AttributeError

definition and_then :: "py_error + 'a \<Rightarrow> ('a \<Rightarrow> py_error + 'b) \<Rightarrow> py_error + 'b" where
  "and_then m f = (case m of Inl e \<Rightarrow> Inl e | Inr x \<Rightarrow> f x)"

text \<open>A Python \<^verbatim>\<open>dict\<close> with string keys, in insertion order.\<close>

type_synonym 'v dict = "(string \<times> 'v) list"

definition dict_get :: "'v dict \<Rightarrow> string \<Rightarrow> py_error + 'v" where
  "dict_get d k = (case map_of d k of None \<Rightarrow> Inl KeyError | Some v \<Rightarrow> Inr v)"

text \<open>\<^verbatim>\<open>d[k].append(x)\<close> on a dict of lists.\<close>

definition dict_append :: "real list dict \<Rightarrow> string \<Rightarrow> real \<Rightarrow> py_error + real list dict" where
  "dict_append d k x =
     (case map_of d k of
        None \<Rightarrow> Inl KeyError
      | Some _ \<Rightarrow> Inr (map (\<lambda>(k', vs). if k' = k then (k', vs @ [x]) else (k', vs)) d))"

text \<open>\<^verbatim>\<open>xs[i]\<close> for a non-negative index, and \<^verbatim>\<open>xs[-1]\<close>.\<close>

definition get :: "'a list \<Rightarrow> nat \<Rightarrow> py_error + 'a" where
  "get xs i = (if i < length xs then Inr (xs ! i) else Inl IndexError)"

definition get_last :: "'a list \<Rightarrow> py_error + 'a" where
  "get_last xs = (if xs = [] then Inl IndexError else Inr (last xs))"

text \<open>Division of Python floats raises on a zero divisor.\<close>

definition py_div :: "real \<Rightarrow> real \<Rightarrow> py_error + real" where
  "py_div a b = (if b = 0 then Inl ZeroDivisionError else Inr (a / b))"

fun py_div_all :: "(real \<times> real) list \<Rightarrow> py_error + real list" where
  "py_div_all [] = Inr []"
| "py_div_all ((a, b) # ps) =
     and_then (py_div a b) (\<lambda>q. and_then (py_div_all ps) (\<lambda>qs. Inr (q # qs)))"

text \<open>
  A transposed \<^verbatim>\<open>DataFrame\<close>: one row of values per line item. The table
  \<^verbatim>\<open>pd.DataFrame(data, index=years).T\<close> exists only when every list of \<open>data\<close> has one
  value per label of the index; pandas raises \<^verbatim>\<open>ValueError\<close> otherwise.
\<close>

type_synonym dataframe = "real list dict"

definition DataFrame_T :: "real list dict \<Rightarrow> string list \<Rightarrow> py_error + dataframe" where
  "DataFrame_T data index =
     (if list_all (\<lambda>(k, vs). length vs = length index) data then Inr data else Inl ValueError)"

text \<open>\<^verbatim>\<open>df.loc[name].values\<close>.\<close>

definition loc :: "dataframe \<Rightarrow> string \<Rightarrow> py_error + real list" where
  "loc df name = dict_get df name"

text \<open>\<^verbatim>\<open>np.diff\<close> on a one-dimensional array.\<close>

definition np_diff :: "real list \<Rightarrow> real list" where
  "np_diff xs = map (\<lambda>(a, b). b - a) (zip xs (tl xs))"

section \<open>Binary64 arithmetic\<close>

text \<open>
  A Python \<^verbatim>\<open>float\<close> is an IEEE 754 binary64 number; in the model it is the real number
  it denotes. \<open>float64 x\<close> is the double nearest to \<open>x\<close>, ties to the even significand:
  \<open>ulp_exponent x\<close> is the exponent of the unit in the last place of the binade of \<open>x\<close>
  (52 below the exponent of \<open>x\<close>, and \<open>-1074\<close> in the subnormal range), and \<open>x\<close> is
  rounded to a multiple of that unit. Each arithmetic operation of Python rounds its exact
  result once. Overflow to infinity is not modelled: no value of the P&L forecaster comes
  near \<open>2 ^ 1024\<close>.
\<close>

definition round_half_even :: "real \<Rightarrow> int" where
  "round_half_even x =
     (let f = \<lfloor>x\<rfloor>; d = x - of_int f in
      if d < 1 / 2 then f else if 1 / 2 < d then f + 1 else if even f then f else f + 1)"

definition ulp_exponent :: "real \<Rightarrow> int" where
  "ulp_exponent x = max (bitlen \<lfloor>\<bar>x\<bar> * 2 ^ 1074\<rfloor> - 1127) (- 1074)"

definition float64 :: "real \<Rightarrow> real" where
  "float64 x = of_int (round_half_even (x / 2 powi ulp_exponent x)) * 2 powi ulp_exponent x"

definition float_add :: "real \<Rightarrow> real \<Rightarrow> real" where
  "float_add x y = float64 (x + y)"

definition float_sub :: "real \<Rightarrow> real \<Rightarrow> real" where
  "float_sub x y = float64 (x - y)"

definition float_mul :: "real \<Rightarrow> real \<Rightarrow> real" where
  "float_mul x y = float64 (x * y)"

text \<open>Division of Python floats raises on a zero divisor.\<close>

definition float_div :: "real \<Rightarrow> real \<Rightarrow> py_error + real" where
  "float_div a b = (if b = 0 then Inl ZeroDivisionError else Inr (float64 (a / b)))"

fun float_div_all :: "(real \<times> real) list \<Rightarrow> py_error + real list" where
  "float_div_all [] = Inr []"
| "float_div_all ((a, b) # ps) =
     and_then (float_div a b) (\<lambda>q. and_then (float_div_all ps) (\<lambda>qs. Inr (q # qs)))"

section \<open>\<^verbatim>\<open>profit_loss.py\<close>\<close>

text \<open>
  The widgets of the P&L tab: the button and, per forecast year, one slider value of
  each kind, already divided by 100 as the source does.
\<close>

record pl_widgets =
  pl_button :: bool
  revenue_growth_rates :: "real list"
  cost_ratios :: "real list"
  sales_expense_ratios :: "real list"
  management_expense_ratios :: "real list"
  financial_expense_ratios :: "real list"

text \<open>What the slider loops over the three years guarantee.\<close>

definition pl_widgets_ok :: "pl_widgets \<Rightarrow> bool" where
  "pl_widgets_ok w \<longleftrightarrow>
     length (revenue_growth_rates w) = 3 \<and> list_all (\<lambda>g. 0 \<le> g \<and> g \<le> 0.5) (revenue_growth_rates w) \<and>
     length (cost_ratios w) = 3 \<and> list_all (\<lambda>r. 0.4 \<le> r \<and> r \<le> 0.8) (cost_ratios w) \<and>
     length (sales_expense_ratios w) = 3 \<and> list_all (\<lambda>r. 0 \<le> r \<and> r \<le> 0.3) (sales_expense_ratios w) \<and>
     length (management_expense_ratios w) = 3 \<and> list_all (\<lambda>r. 0 \<le> r \<and> r \<le> 0.2) (management_expense_ratios w) \<and>
     length (financial_expense_ratios w) = 3 \<and> list_all (\<lambda>r. 0 \<le> r \<and> r \<le> 0.1) (financial_expense_ratios w)"

definition historical_data :: "real dict" where
  "historical_data =
     [(''Revenue(A)'', 1000),
      (''Cost(B)'', 600),
      (''Gross Profit(A-B)'', 400),
      (''Selling Expense(C)'', 100),
      (''Admin Expense(D)'', 80),
      (''Financial Expense(E)'', 20),
      (''Net Profit(A-B-C-D-E)'', 200)]"

definition forecast_years :: "string list" where
  "forecast_years = [''2023A'', ''2024E'', ''2025E'', ''2026E'']"

text \<open>The revenue loop: \<^verbatim>\<open>revenues.append(revenues[-1] * (1 + growth_rate))\<close>.\<close>

definition pl_revenues :: "real \<Rightarrow> real list \<Rightarrow> real list" where
  "pl_revenues rev0 rates =
     fold (\<lambda>growth_rate revenues. revenues @ [float_mul (last revenues) (float_add 1 growth_rate)])
       rates [rev0]"

text \<open>\<^verbatim>\<open>[rev * ratio for rev, ratio in zip(revs, ratios)]\<close>.\<close>

definition times_ratio :: "real list \<Rightarrow> real list \<Rightarrow> real list" where
  "times_ratio revs ratios = map (\<lambda>(rev, ratio). float_mul rev ratio) (zip revs ratios)"

text \<open>
  The lists the button's branch builds, as the dict \<open>data\<close>, for a baseline \<open>hist\<close>
  (the source's local \<open>historical_data\<close>). The subtractions
  \<^verbatim>\<open>rev - cost - sales - mgmt - fin\<close> associate to the left.
\<close>

definition pl_data :: "real dict \<Rightarrow> pl_widgets \<Rightarrow> py_error + real list dict" where
  "pl_data hist w =
     and_then (dict_get hist ''Revenue(A)'') (\<lambda>rev0.
     let revenues = pl_revenues rev0 (revenue_growth_rates w) in
     and_then (dict_get hist ''Cost(B)'') (\<lambda>cost0.
     let costs = cost0 # times_ratio (tl revenues) (cost_ratios w);
         gross_profits = map (\<lambda>(rev, cost). float_sub rev cost) (zip revenues costs) in
     and_then (dict_get hist ''Selling Expense(C)'') (\<lambda>sell0.
     let sales_expenses = sell0 # times_ratio (tl revenues) (sales_expense_ratios w) in
     and_then (dict_get hist ''Admin Expense(D)'') (\<lambda>adm0.
     let management_expenses = adm0 # times_ratio (tl revenues) (management_expense_ratios w) in
     and_then (dict_get hist ''Financial Expense(E)'') (\<lambda>fin0.
     let financial_expenses = fin0 # times_ratio (tl revenues) (financial_expense_ratios w);
         operating_profits =
           map (\<lambda>(rev, cost, sales, mgmt, fin).
                  float_sub (float_sub (float_sub (float_sub rev cost) sales) mgmt) fin)
             (zip revenues (zip costs (zip sales_expenses (zip management_expenses financial_expenses))))
     in Inr [(''Revenue(A)'', revenues),
             (''Cost(B)'', costs),
             (''Gross Profit(A-B)'', gross_profits),
             (''Selling Expense(C)'', sales_expenses),
             (''Admin Expense(D)'', management_expenses),
             (''Financial Expense(E)'', financial_expenses),
             (''Net Profit(A-B-C-D-E)'', operating_profits)])))))"

text \<open>
  The key metrics. The lists hold Python numbers, so a zero revenue raises
  \<^verbatim>\<open>ZeroDivisionError\<close>; a negative base under the power \<^verbatim>\<open>** (1 / 3)\<close> is a complex
  number in Python, which the format \<^verbatim>\<open>:.1%\<close> refuses with \<^verbatim>\<open>ValueError\<close>. The metrics
  are displayed and not returned; the value of the power is given without its rounding.
\<close>

definition pl_metrics :: "real list \<Rightarrow> real list \<Rightarrow> real list \<Rightarrow> py_error + (real list \<times> real list \<times> real)" where
  "pl_metrics revenues gross_profits operating_profits =
     and_then (float_div_all (zip gross_profits revenues)) (\<lambda>gross_margins.
     and_then (get_last gross_margins) (\<lambda>_.
     and_then (float_div_all (zip operating_profits revenues)) (\<lambda>net_margins.
     and_then (get_last net_margins) (\<lambda>_.
     and_then (float_div (last revenues) (hd revenues)) (\<lambda>r.
     if r < 0 then Inl ValueError
     else Inr (gross_margins, net_margins, r powr (1 / 3) - 1))))))"

text \<open>The body of \<^verbatim>\<open>if st.button("Generate P&L Forecast")\<close>.\<close>

definition pl_generate :: "real dict \<Rightarrow> pl_widgets \<Rightarrow> py_error + dataframe" where
  "pl_generate hist w =
     and_then (pl_data hist w) (\<lambda>data.
     and_then (DataFrame_T data forecast_years) (\<lambda>forecast_df.
     and_then (dict_get data ''Revenue(A)'') (\<lambda>revenues.
     and_then (dict_get data ''Gross Profit(A-B)'') (\<lambda>gross_profits.
     and_then (dict_get data ''Net Profit(A-B-C-D-E)'') (\<lambda>operating_profits.
     and_then (pl_metrics revenues gross_profits operating_profits) (\<lambda>_.
     Inr forecast_df))))))"

text \<open>
  \<^verbatim>\<open>create_profit_loss_section\<close>: \<open>None\<close> unless the button was pressed; the function
  has no exception handler, so an error leaves it as an exception.
\<close>

definition create_profit_loss_section :: "pl_widgets \<Rightarrow> py_error + dataframe option" where
  "create_profit_loss_section w =
     (if pl_button w
      then and_then (pl_generate historical_data w) (\<lambda>forecast_df. Inr (Some forecast_df))
      else Inr None)"

section \<open>\<^verbatim>\<open>balance_sheet.py\<close>\<close>

text \<open>The widgets of the Balance Sheet tab: five sliders, one number input, the button.\<close>

record bs_widgets =
  bs_button :: bool
  receivables_ratio :: real
  prepayment_ratio :: real
  payables_ratio :: real
  advance_ratio :: real
  fixed_asset_growth :: real
  capital_increase :: real

text \<open>The slider ranges; the number input of the capital increase has no bounds.\<close>

definition bs_widgets_ok :: "bs_widgets \<Rightarrow> bool" where
  "bs_widgets_ok w \<longleftrightarrow>
     0 \<le> receivables_ratio w \<and> receivables_ratio w \<le> 0.3 \<and>
     0 \<le> prepayment_ratio w \<and> prepayment_ratio w \<le> 0.1 \<and>
     0 \<le> payables_ratio w \<and> payables_ratio w \<le> 0.4 \<and>
     0 \<le> advance_ratio w \<and> advance_ratio w \<le> 0.1 \<and>
     0 \<le> fixed_asset_growth w \<and> fixed_asset_growth w \<le> 0.5"

definition historical_bs :: "real dict" where
  "historical_bs =
     [(''Cash(F)'', 1260.00),
      (''Accounts Receivable(G)'', 110.00),
      (''Prepayments(H)'', 6.00),
      (''Fixed Assets(I)'', 16.00),
      (''Total Assets(F+G+H+I)'', 1392.00),
      (''Accounts Payable(J)'', 120.00),
      (''Advances from Customers(K)'', 10.00),
      (''Total Liabilities(J+K)'', 130.00),
      (''Share Capital(L)'', 1333.52),
      (''Retained Earnings(M)'', -71.52),
      (''Total Equity(L+M)'', 1262.00),
      (''Total Liabilities & Equity(J+K+L+M)'', 1392.00)]"

definition years :: "string list" where
  "years = [''2023A'', ''2024E'', ''2025E'', ''2026E'']"

text \<open>One pass of the body of \<^verbatim>\<open>for i in range(1, 4)\<close>.\<close>

definition bs_step :: "real list \<Rightarrow> real list \<Rightarrow> real list \<Rightarrow> bs_widgets \<Rightarrow> nat \<Rightarrow> real list dict \<Rightarrow> py_error + real list dict" where
  "bs_step revenues costs net_profits w i forecast_data =
     and_then (get revenues i) (\<lambda>rev_i.
     let receivables = rev_i * receivables_ratio w in
     and_then (get costs i) (\<lambda>cost_i.
     let prepayments = cost_i * prepayment_ratio w in
     and_then (dict_get forecast_data ''Fixed Assets(I)'') (\<lambda>fa_row.
     and_then (get_last fa_row) (\<lambda>fa_prev.
     let fixed_assets = fa_prev * (1 + fixed_asset_growth w);
         payables = cost_i * payables_ratio w;
         advances = rev_i * advance_ratio w;
         total_liabilities = payables + advances in
     and_then (dict_get forecast_data ''Share Capital(L)'') (\<lambda>cap_row.
     and_then (get_last cap_row) (\<lambda>cap_prev.
     let capital = cap_prev + (if i = 1 then capital_increase w else 0) in
     and_then (dict_get forecast_data ''Retained Earnings(M)'') (\<lambda>re_row.
     and_then (get_last re_row) (\<lambda>re_prev.
     and_then (get net_profits i) (\<lambda>np_i.
     let retained_earnings = re_prev + np_i;
         total_equity = capital + retained_earnings;
         total_liab_equity = total_liabilities + total_equity;
         other_assets = receivables + prepayments + fixed_assets;
         cash = total_liab_equity - other_assets in
     and_then (dict_append forecast_data ''Cash(F)'' cash) (\<lambda>fd.
     and_then (dict_append fd ''Accounts Receivable(G)'' receivables) (\<lambda>fd.
     and_then (dict_append fd ''Prepayments(H)'' prepayments) (\<lambda>fd.
     and_then (dict_append fd ''Fixed Assets(I)'' fixed_assets) (\<lambda>fd.
     and_then (dict_append fd ''Total Assets(F+G+H+I)'' total_liab_equity) (\<lambda>fd.
     and_then (dict_append fd ''Accounts Payable(J)'' payables) (\<lambda>fd.
     and_then (dict_append fd ''Advances from Customers(K)'' advances) (\<lambda>fd.
     and_then (dict_append fd ''Total Liabilities(J+K)'' total_liabilities) (\<lambda>fd.
     and_then (dict_append fd ''Share Capital(L)'' capital) (\<lambda>fd.
     and_then (dict_append fd ''Retained Earnings(M)'' retained_earnings) (\<lambda>fd.
     and_then (dict_append fd ''Total Equity(L+M)'' total_equity) (\<lambda>fd.
     dict_append fd ''Total Liabilities & Equity(J+K+L+M)'' total_liab_equity))))))))))))))))))))"

fun bs_loop :: "real list \<Rightarrow> real list \<Rightarrow> real list \<Rightarrow> bs_widgets \<Rightarrow> nat list \<Rightarrow> real list dict \<Rightarrow> py_error + real list dict" where
  "bs_loop revenues costs net_profits w [] forecast_data = Inr forecast_data"
| "bs_loop revenues costs net_profits w (i # is) forecast_data =
     and_then (bs_step revenues costs net_profits w i forecast_data)
       (bs_loop revenues costs net_profits w is)"

text \<open>
  The key metrics of the Balance Sheet. Iterating a pandas row yields Python floats, so a
  zero total of assets raises \<^verbatim>\<open>ZeroDivisionError\<close>.
\<close>

definition bs_metrics :: "dataframe \<Rightarrow> py_error + (real list \<times> real list \<times> real list)" where
  "bs_metrics forecast_df =
     and_then (loc forecast_df ''Total Liabilities(J+K)'') (\<lambda>liabilities.
     and_then (loc forecast_df ''Total Assets(F+G+H+I)'') (\<lambda>assets.
     and_then (py_div_all (zip liabilities assets)) (\<lambda>debt_ratios.
     and_then (get_last debt_ratios) (\<lambda>_.
     and_then (loc forecast_df ''Fixed Assets(I)'') (\<lambda>fixed.
     and_then (py_div_all (zip fixed assets)) (\<lambda>fixed_asset_ratios.
     and_then (get_last fixed_asset_ratios) (\<lambda>_.
     and_then (loc forecast_df ''Total Equity(L+M)'') (\<lambda>equity.
     and_then (py_div_all (zip equity assets)) (\<lambda>equity_ratios.
     and_then (get_last equity_ratios) (\<lambda>_.
     Inr (debt_ratios, fixed_asset_ratios, equity_ratios)))))))))))"

text \<open>
  The body of the \<^verbatim>\<open>try\<close> block. The argument is the value the caller holds for the
  P&L table, which may be \<^verbatim>\<open>None\<close>.
\<close>

definition bs_generate :: "dataframe option \<Rightarrow> bs_widgets \<Rightarrow> py_error + dataframe" where
  "bs_generate profit_loss_data w =
     (case profit_loss_data of
        None \<Rightarrow> Inl AttributeError
      | Some pl \<Rightarrow>
          and_then (loc pl ''Revenue(A)'') (\<lambda>revenues.
          and_then (loc pl ''Cost(B)'') (\<lambda>costs.
          and_then (loc pl ''Net Profit(A-B-C-D-E)'') (\<lambda>net_profits.
          let forecast_data = map (\<lambda>(k, v). (k, [v])) historical_bs in
          and_then (bs_loop revenues costs net_profits w [1, 2, 3] forecast_data) (\<lambda>forecast_data.
          and_then (DataFrame_T forecast_data years) (\<lambda>forecast_df.
          and_then (bs_metrics forecast_df) (\<lambda>_.
          Inr forecast_df)))))))"

text \<open>
  \<^verbatim>\<open>create_balance_sheet_section\<close>: the handler \<^verbatim>\<open>except Exception\<close> turns every error
  of the body into \<^verbatim>\<open>None\<close>.
\<close>

definition create_balance_sheet_section :: "dataframe option \<Rightarrow> bs_widgets \<Rightarrow> dataframe option" where
  "create_balance_sheet_section profit_loss_data w =
     (if bs_button w
      then (case bs_generate profit_loss_data w of Inl e \<Rightarrow> None | Inr forecast_df \<Rightarrow> Some forecast_df)
      else None)"

section \<open>\<^verbatim>\<open>cash_flow.py\<close>\<close>

record cf_widgets =
  cf_button :: bool
  depreciation_rate :: real

definition cf_widgets_ok :: "cf_widgets \<Rightarrow> bool" where
  "cf_widgets_ok w \<longleftrightarrow> 0 \<le> depreciation_rate w \<and> depreciation_rate w \<le> 0.2"

text \<open>
  A numpy scalar is a number or not-a-number: numpy's power of a negative base to the
  exponent \<^verbatim>\<open>1 / 3\<close> is \<^verbatim>\<open>nan\<close>, with a warning and no exception.
\<close>

datatype np_float = Finite real | NaN

definition np_power_third :: "real \<Rightarrow> np_float" where
  "np_power_third r = (if r < 0 then NaN else Finite (r powr (1 / 3)))"

fun np_minus_one :: "np_float \<Rightarrow> np_float" where
  "np_minus_one (Finite x) = Finite (x - 1)"
| "np_minus_one NaN = NaN"

text \<open>\<^verbatim>\<open>depreciation = fixed_assets * depreciation_rate\<close>, element by element.\<close>

definition depreciation :: "real list \<Rightarrow> real \<Rightarrow> real list" where
  "depreciation fixed_assets rate = map (\<lambda>fa. fa * rate) fixed_assets"

text \<open>
  One pass of the body of \<^verbatim>\<open>for i in range(1, 4)\<close>, on the three lists of cash flows.
\<close>

definition cf_step ::
  "real list \<Rightarrow> real list \<Rightarrow> real list \<Rightarrow> real list \<Rightarrow> real list \<Rightarrow> real list \<Rightarrow> real list \<Rightarrow> real list
     \<Rightarrow> nat \<Rightarrow> real list \<times> real list \<times> real list \<Rightarrow> py_error + real list \<times> real list \<times> real list" where
  "cf_step net_profits depr receivables_change prepayments_change payables_change advances_change
       fixed_assets capital_changes i flows =
     (case flows of (operating_cash_flows, investing_cash_flows, financing_cash_flows) \<Rightarrow>
     and_then (get net_profits i) (\<lambda>np_i.
     and_then (get depr i) (\<lambda>dep_i.
     and_then (get receivables_change (i - 1)) (\<lambda>rc.
     and_then (get prepayments_change (i - 1)) (\<lambda>pc.
     and_then (get payables_change (i - 1)) (\<lambda>pyc.
     and_then (get advances_change (i - 1)) (\<lambda>ac.
     let operating_cf = np_i + dep_i - rc - pc + pyc + ac in
     and_then (get fixed_assets i) (\<lambda>fa_i.
     and_then (get fixed_assets (i - 1)) (\<lambda>fa_prev.
     let investing_cf = - (fa_i - fa_prev + dep_i) in
     and_then (get capital_changes (i - 1)) (\<lambda>financing_cf.
     Inr (operating_cash_flows @ [operating_cf],
          investing_cash_flows @ [investing_cf],
          financing_cash_flows @ [financing_cf])))))))))))"

fun cf_loop ::
  "real list \<Rightarrow> real list \<Rightarrow> real list \<Rightarrow> real list \<Rightarrow> real list \<Rightarrow> real list \<Rightarrow> real list \<Rightarrow> real list
     \<Rightarrow> nat list \<Rightarrow> real list \<times> real list \<times> real list \<Rightarrow> py_error + real list \<times> real list \<times> real list" where
  "cf_loop np dp rc pc pyc ac fa cc [] flows = Inr flows"
| "cf_loop np dp rc pc pyc ac fa cc (i # is) flows =
     and_then (cf_step np dp rc pc pyc ac fa cc i flows) (cf_loop np dp rc pc pyc ac fa cc is)"

text \<open>
  What the section shows: the table and the three key metrics. (The source function itself
  returns nothing.)
\<close>

record cf_output =
  cash_flow_df :: dataframe
  operating_cf_ratio :: "real list"
  capex_ratio :: "real list"
  cf_growth :: np_float

text \<open>The body of the \<^verbatim>\<open>try\<close> block.\<close>

definition cf_generate :: "dataframe option \<Rightarrow> dataframe option \<Rightarrow> cf_widgets \<Rightarrow> py_error + cf_output" where
  "cf_generate profit_loss_data balance_sheet_data w =
     (case profit_loss_data of None \<Rightarrow> Inl AttributeError | Some pl \<Rightarrow>
      and_then (loc pl ''Net Profit(A-B-C-D-E)'') (\<lambda>net_profits.
     (case balance_sheet_data of None \<Rightarrow> Inl AttributeError | Some bs \<Rightarrow>
      and_then (loc bs ''Fixed Assets(I)'') (\<lambda>fixed_assets.
      and_then (loc bs ''Accounts Receivable(G)'') (\<lambda>receivables.
      and_then (loc bs ''Prepayments(H)'') (\<lambda>prepayments.
      and_then (loc bs ''Accounts Payable(J)'') (\<lambda>payables.
      and_then (loc bs ''Advances from Customers(K)'') (\<lambda>advances.
      and_then (loc bs ''Share Capital(L)'') (\<lambda>capital.
      let capital_changes = np_diff capital;
          depr = depreciation fixed_assets (depreciation_rate w);
          receivables_change = np_diff receivables;
          prepayments_change = np_diff prepayments;
          payables_change = np_diff payables;
          advances_change = np_diff advances in
      and_then (get net_profits 0) (\<lambda>np0.
      and_then (get depr 0) (\<lambda>dep0.
      and_then (cf_loop net_profits depr receivables_change prepayments_change payables_change
                  advances_change fixed_assets capital_changes [1, 2, 3] ([np0 + dep0], [0], [0]))
        (\<lambda>(operating_cash_flows, investing_cash_flows, financing_cash_flows).
      let net_cash_flows =
            map (\<lambda>(op, inv, fin). op + inv + fin)
              (zip operating_cash_flows (zip investing_cash_flows financing_cash_flows));
          cash_flow_data =
            [(''Operating Cash Flow(N)'', operating_cash_flows),
             (''Investing Cash Flow(O)'', investing_cash_flows),
             (''Financing Cash Flow(P)'', financing_cash_flows),
             (''**Net Cash Flow(N+O+P)**'', net_cash_flows)] in
      and_then (DataFrame_T cash_flow_data years) (\<lambda>df.
      let ocf_ratio = map (\<lambda>(ocf, np). if np \<noteq> 0 then ocf / np else 0)
                        (zip operating_cash_flows net_profits) in
      and_then (get_last ocf_ratio) (\<lambda>_.
      let capex = map (\<lambda>(icf, ocf). if ocf \<noteq> 0 then - icf / ocf else 0)
                    (zip investing_cash_flows operating_cash_flows) in
      and_then (get_last capex) (\<lambda>_.
      and_then (get net_cash_flows 0) (\<lambda>ncf0.
      and_then (get_last net_cash_flows) (\<lambda>ncf_last.
      let growth = (if ncf0 \<noteq> 0 then np_minus_one (np_power_third (ncf_last / ncf0)) else Finite 0) in
      Inr \<lparr>cash_flow_df = df, operating_cf_ratio = ocf_ratio, capex_ratio = capex,
           cf_growth = growth\<rparr>)))))))))))))))))"

text \<open>
  \<^verbatim>\<open>create_cash_flow_section\<close>: nothing is shown unless the button was pressed and the
  body ran without an exception.
\<close>

definition create_cash_flow_section :: "dataframe option \<Rightarrow> dataframe option \<Rightarrow> cf_widgets \<Rightarrow> cf_output option" where
  "create_cash_flow_section profit_loss_data balance_sheet_data w =
     (if cf_button w
      then (case cf_generate profit_loss_data balance_sheet_data w of Inl e \<Rightarrow> None | Inr out \<Rightarrow> Some out)
      else None)"

section \<open>\<^verbatim>\<open>main.py\<close>\<close>

record session_state =
  profit_loss_data :: "dataframe option"
  balance_sheet_data :: "dataframe option"
  is_pl_generated :: bool
  is_bs_generated :: bool

text \<open>The state \<^verbatim>\<open>init_session_state\<close> sets up in a fresh session.\<close>

definition init_session_state :: session_state where
  "init_session_state =
     \<lparr>profit_loss_data = None, balance_sheet_data = None,
      is_pl_generated = False, is_bs_generated = False\<rparr>"

definition reset_all_data :: "session_state \<Rightarrow> session_state" where
  "reset_all_data s =
     s\<lparr>profit_loss_data := None, balance_sheet_data := None,
       is_pl_generated := False, is_bs_generated := False\<rparr>"

text \<open>What the user did before one run of the script: all widget values and buttons.\<close>

record ui =
  pl_ui :: pl_widgets
  bs_ui :: bs_widgets
  cf_ui :: cf_widgets
  reset_button :: bool

text \<open>The calls of the two downstream sections, with the arguments they were given.\<close>

datatype invocation =
  InvokeBS "dataframe option"
| InvokeCF "dataframe option" "dataframe option"

text \<open>The P&L tab; an exception of the section leaves the script.\<close>

definition tab1 :: "session_state \<Rightarrow> pl_widgets \<Rightarrow> py_error + session_state" where
  "tab1 s w =
     and_then (create_profit_loss_section w) (\<lambda>pl_result.
       case pl_result of
         None \<Rightarrow> Inr s
       | Some df \<Rightarrow>
           Inr (s\<lparr>profit_loss_data := Some df, is_pl_generated := True,
                  balance_sheet_data := None, is_bs_generated := False\<rparr>))"

definition tab2 :: "session_state \<Rightarrow> bs_widgets \<Rightarrow> session_state \<times> invocation list" where
  "tab2 s w =
     (if is_pl_generated s
      then (case create_balance_sheet_section (profit_loss_data s) w of
              None \<Rightarrow> (s, [InvokeBS (profit_loss_data s)])
            | Some bs_result \<Rightarrow>
                (s\<lparr>balance_sheet_data := Some bs_result, is_bs_generated := True\<rparr>,
                 [InvokeBS (profit_loss_data s)]))
      else (s, []))"

definition tab3 :: "session_state \<Rightarrow> cf_widgets \<Rightarrow> cf_output option \<times> invocation list" where
  "tab3 s w =
     (if is_pl_generated s \<and> is_bs_generated s
      then (create_cash_flow_section (profit_loss_data s) (balance_sheet_data s) w,
            [InvokeCF (profit_loss_data s) (balance_sheet_data s)])
      else (None, []))"

definition sidebar :: "session_state \<Rightarrow> bool \<Rightarrow> session_state" where
  "sidebar s reset = (if reset then reset_all_data s else s)"

text \<open>
  One run of the script on the session state: the state it leaves and the downstream
  sections it called. An exception in the P&L tab ends the run at once, before any
  assignment to the session state.
\<close>

definition script_run :: "session_state \<Rightarrow> ui \<Rightarrow> session_state \<times> invocation list" where
  "script_run s u =
     (case tab1 s (pl_ui u) of
        Inl e \<Rightarrow> (s, [])
      | Inr s1 \<Rightarrow>
          (case tab2 s1 (bs_ui u) of (s2, calls2) \<Rightarrow>
          (case tab3 s2 (cf_ui u) of (shown, calls3) \<Rightarrow>
            (sidebar s2 (reset_button u), calls2 @ calls3))))"

inductive reachable :: "session_state \<Rightarrow> bool" where
  reachable_init: "reachable init_session_state"
| reachable_run: "reachable s \<Longrightarrow> reachable (fst (script_run s u))"

section \<open>Scenarios\<close>

text \<open>
  The P&L tab with every slider at its default value (15, 60, 10, 7 and 2 percent, each
  divided by 100 in binary64) and the button pressed.
\<close>

definition pl_defaults :: pl_widgets where
  "pl_defaults =
     \<lparr>pl_button = True,
      revenue_growth_rates = [float64 (15 / 100), float64 (15 / 100), float64 (15 / 100)],
      cost_ratios = [float64 (60 / 100), float64 (60 / 100), float64 (60 / 100)],
      sales_expense_ratios = [float64 (10 / 100), float64 (10 / 100), float64 (10 / 100)],
      management_expense_ratios = [float64 (7 / 100), float64 (7 / 100), float64 (7 / 100)],
      financial_expense_ratios = [float64 (2 / 100), float64 (2 / 100), float64 (2 / 100)]\<rparr>"

text \<open>A P&L table of the three rows the Balance Sheet reads, with figures rounded to cents.\<close>

definition example_data :: dataframe where
  "example_data =
     [(''Revenue(A)'', [1000, 1150, 1322.5, 1520.87]),
      (''Cost(B)'', [600, 690, 793.5, 912.52]),
      (''Net Profit(A-B-C-D-E)'', [200, 230, 264.5, 304.17])]"

text \<open>The Balance Sheet tab with every widget at its default value and the button pressed.\<close>

definition bs_defaults :: bs_widgets where
  "bs_defaults =
     \<lparr>bs_button = True, receivables_ratio = 0.11, prepayment_ratio = 0.01,
      payables_ratio = 0.20, advance_ratio = 0.01, fixed_asset_growth = 0.20,
      capital_increase = 325.00\<rparr>"







section \<open>Properties of binary64 rounding\<close>

lemma round_half_even_near:
  assumes "\<bar>x - of_int m\<bar> < 1 / 2"
  shows "round_half_even x = m"
proof -
  define f where "f = \<lfloor>x\<rfloor>"
  have f: "of_int f \<le> x" "x < of_int f + 1" unfolding f_def by linarith+
  from assms have m: "of_int m - 1 / 2 < x" "x < of_int m + 1 / 2" by linarith+
  have "real_of_int f < of_int (m + 1)" using f(1) m(2) by simp
  then have up: "f < m + 1" by (simp only: of_int_less_iff)
  have "real_of_int (m - 1) < of_int (f + 1)" using f(2) m(1) by simp
  then have lo: "m - 1 < f + 1" by (simp only: of_int_less_iff)
  from up lo consider "f = m" | "f = m - 1" by linarith
  then show ?thesis
  proof cases
    case 1
    then have "x - of_int f < 1 / 2" using m(2) by simp
    then show ?thesis unfolding round_half_even_def Let_def f_def[symmetric] using 1 by simp
  next
    case 2
    then have "1 / 2 < x - of_int f" using m(1) by simp
    then show ?thesis unfolding round_half_even_def Let_def f_def[symmetric] using 2 by simp
  qed
qed

lemma round_half_even_ge:
  assumes "of_int n \<le> x"
  shows "n \<le> round_half_even x"
proof -
  from assms have "n \<le> \<lfloor>x\<rfloor>" by (simp only: le_floor_iff)
  moreover have "\<lfloor>x\<rfloor> \<le> round_half_even x" by (simp add: round_half_even_def Let_def)
  ultimately show ?thesis by linarith
qed

lemma bitlen_eqI: "2 ^ k \<le> n \<Longrightarrow> n < 2 ^ Suc k \<Longrightarrow> bitlen n = int k + 1"
  by (rule antisym) (auto simp: bitlen_le_iff_power bitlen_ge_iff_power nat_add_distrib)

lemma powi_scale: "- 1074 \<le> e \<Longrightarrow> (2::real) powi e * 2 ^ 1074 = 2 ^ nat (e + 1074)"
proof -
  assume e: "- 1074 \<le> e"
  have "(2::real) powi e * 2 ^ 1074 = 2 powi e * 2 powi 1074" by simp
  also have "\<dots> = 2 powi (e + 1074)" by (simp add: power_int_add)
  also have "\<dots> = 2 ^ nat (e + 1074)" using e by (simp add: power_int_def)
  finally show ?thesis .
qed

lemma ulp_exponent_eq:
  assumes lo: "2 powi e \<le> \<bar>x\<bar>" and hi: "\<bar>x\<bar> < 2 powi (e + 1)" and e: "- 1022 \<le> e"
  shows "ulp_exponent x = e - 52"
proof -
  define k where "k = nat (e + 1074)"
  have k: "int k = e + 1074" using e by (simp add: k_def)
  have "(2::real) ^ k = 2 powi e * 2 ^ 1074"
    unfolding k_def by (rule powi_scale[symmetric]) (use e in linarith)
  also have "\<dots> \<le> \<bar>x\<bar> * 2 ^ 1074" using lo by simp
  finally have "of_int (2 ^ k) \<le> \<bar>x\<bar> * 2 ^ 1074" by simp
  then have a: "2 ^ k \<le> \<lfloor>\<bar>x\<bar> * 2 ^ 1074\<rfloor>" by (simp only: le_floor_iff)
  have "nat (e + 1 + 1074) = Suc k" using e by (simp add: k_def)
  then have "(2::real) ^ Suc k = 2 powi (e + 1) * 2 ^ 1074" using e powi_scale[of "e + 1"] by simp
  moreover have "\<bar>x\<bar> * 2 ^ 1074 < 2 powi (e + 1) * 2 ^ 1074" using hi by simp
  ultimately have "\<bar>x\<bar> * 2 ^ 1074 < of_int (2 ^ Suc k)" by simp
  then have b: "\<lfloor>\<bar>x\<bar> * 2 ^ 1074\<rfloor> < 2 ^ Suc k" by (simp only: floor_less_iff)
  from bitlen_eqI[OF a b] k e show ?thesis by (simp add: ulp_exponent_def)
qed

lemma float64_nearest:
  assumes "2 powi e \<le> \<bar>x\<bar>" and "\<bar>x\<bar> < 2 powi (e + 1)" and "- 1022 \<le> e"
    and "\<bar>x / 2 powi (e - 52) - of_int m\<bar> < 1 / 2"
  shows "float64 x = of_int m * 2 powi (e - 52)"
  using assms(4) by (simp add: float64_def ulp_exponent_eq[OF assms(1-3)] round_half_even_near)

lemma float64_ge_power:
  assumes lo: "2 powi e \<le> x" and e: "- 1022 \<le> e"
  shows "2 powi e \<le> float64 x"
proof -
  have x0: "0 < x" using lo by (smt (verit) zero_less_power_int)
  define n where "n = \<lfloor>\<bar>x\<bar> * 2 ^ 1074\<rfloor>"
  define k where "k = nat (e + 1074)"
  have "(2::real) ^ k = 2 powi e * 2 ^ 1074"
    unfolding k_def by (rule powi_scale[symmetric]) (use e in linarith)
  also have "\<dots> \<le> \<bar>x\<bar> * 2 ^ 1074" using lo x0 by simp
  finally have "of_int (2 ^ k) \<le> \<bar>x\<bar> * 2 ^ 1074" by simp
  then have kn: "2 ^ k \<le> n" unfolding n_def by (simp only: le_floor_iff)
  then have n0: "0 < n" by (smt (verit) zero_less_power)
  define L where "L = bitlen n"
  have Lk: "int k + 1 \<le> L" unfolding L_def using kn by (simp add: bitlen_ge_iff_power nat_add_distrib)
  then have L53: "53 \<le> L" using e by (simp add: k_def)
  have u: "ulp_exponent x = L - 1127" using L53 by (simp add: ulp_exponent_def L_def n_def)
  have "2 ^ nat (L - 1) \<le> n" using bitlen_bounds[OF n0] by (simp add: L_def)
  then have "(2::real) ^ nat (L - 1) \<le> of_int n" by (metis of_int_le_iff of_int_numeral of_int_power)
  also have "\<dots> \<le> x * 2 ^ 1074" using x0 by (simp add: n_def)
  finally have "(2::real) ^ nat (L - 1) / 2 ^ 1074 \<le> x" by (simp add: field_simps)
  moreover have "(2::real) ^ nat (L - 1) / 2 ^ 1074 = 2 powi (L - 1075)"
  proof -
    have "(2::real) powi (L - 1075) * 2 ^ 1074 = 2 ^ nat (L - 1075 + 1074)"
      using L53 by (intro powi_scale) simp
    then show ?thesis by (simp add: field_simps)
  qed
  ultimately have xl: "2 powi (L - 1075) \<le> x" by simp
  have "(2::real) powi (L - 1075) = 2 powi 52 * 2 powi (L - 1127)"
    by (simp add: power_int_add[symmetric] del: power_int_numeral)
  with xl have "of_int (2 ^ 52) \<le> x / 2 powi (L - 1127)"
    by (simp add: field_simps)
  then have "2 ^ 52 \<le> round_half_even (x / 2 powi (L - 1127))" by (rule round_half_even_ge)
  then have "(2::real) ^ 52 \<le> of_int (round_half_even (x / 2 powi (L - 1127)))"
    by (metis of_int_le_iff of_int_numeral of_int_power)
  then have "2 powi 52 * 2 powi (L - 1127) \<le> float64 x"
    unfolding float64_def u by (simp add: mult_right_mono)
  then have "2 powi (L - 1075) \<le> float64 x"
    by (simp add: power_int_add[symmetric] del: power_int_numeral)
  moreover have "(2::real) powi e \<le> 2 powi (L - 1075)"
    using Lk e by (intro power_int_increasing) (simp_all add: k_def)
  ultimately show ?thesis by linarith
qed

lemma float64_nonneg:
  assumes "0 \<le> x"
  shows "0 \<le> float64 x"
proof -
  have "0 \<le> x / 2 powi ulp_exponent x" using assms by simp
  then have "of_int 0 \<le> x / 2 powi ulp_exponent x" by simp
  then have "0 \<le> round_half_even (x / 2 powi ulp_exponent x)" by (rule round_half_even_ge)
  then show ?thesis by (simp add: float64_def)
qed

section \<open>Properties of the P&L forecaster\<close>

lemma and_then_Inr_iff: "and_then m f = Inr y \<longleftrightarrow> (\<exists>x. m = Inr x \<and> f x = Inr y)"
  by (cases m) (simp_all add: and_then_def)

lemma and_then_simps [simp]: "and_then (Inr x) f = f x" "and_then (Inl e) f = Inl e"
  by (simp_all add: and_then_def)

lemma fold_rev_length:
  "length (fold (\<lambda>g revs. revs @ [float_mul (last revs) (float_add 1 g)]) rates acc)
     = length acc + length rates"
  by (induction rates arbitrary: acc) auto

lemma fold_rev_old:
  "i < length acc \<Longrightarrow>
   fold (\<lambda>g revs. revs @ [float_mul (last revs) (float_add 1 g)]) rates acc ! i = acc ! i"
  by (induction rates arbitrary: acc) (auto simp: nth_append)

lemma fold_rev_step: "acc \<noteq> [] \<Longrightarrow> i < length rates \<Longrightarrow>
   fold (\<lambda>g revs. revs @ [float_mul (last revs) (float_add 1 g)]) rates acc ! (length acc + i)
   = float_mul (fold (\<lambda>g revs. revs @ [float_mul (last revs) (float_add 1 g)]) rates acc
                  ! (length acc + i - 1)) (float_add 1 (rates ! i))"
proof (induction rates arbitrary: acc i)
  case Nil then show ?case by simp
next
  case (Cons g rates)
  show ?case
  proof (cases i)
    case 0
    then show ?thesis using Cons.prems
      by (simp add: fold_rev_old nth_append last_conv_nth)
  next
    case (Suc j)
    then show ?thesis
      using Cons.prems Cons.IH[of "acc @ [float_mul (last acc) (float_add 1 g)]" j]
      by simp
  qed
qed

lemma pl_revenues_length: "length (pl_revenues r0 rates) = Suc (length rates)"
  by (simp add: pl_revenues_def fold_rev_length)

lemma pl_revenues_0: "pl_revenues r0 rates ! 0 = r0"
  by (simp add: pl_revenues_def fold_rev_old)

lemma pl_revenues_Suc:
  "i < length rates \<Longrightarrow>
   pl_revenues r0 rates ! Suc i = float_mul (pl_revenues r0 rates ! i) (float_add 1 (rates ! i))"
  using fold_rev_step[of "[r0]" i rates] by (simp add: pl_revenues_def)

lemma times_ratio_length: "length (times_ratio xs ys) = min (length xs) (length ys)"
  by (simp add: times_ratio_def)

lemma times_ratio_nth:
  "i < length xs \<Longrightarrow> i < length ys \<Longrightarrow> times_ratio xs ys ! i = float_mul (xs ! i) (ys ! i)"
  by (simp add: times_ratio_def)

lemma hist_gets:
  "dict_get historical_data ''Revenue(A)'' = Inr 1000"
  "dict_get historical_data ''Cost(B)'' = Inr 600"
  "dict_get historical_data ''Selling Expense(C)'' = Inr 100"
  "dict_get historical_data ''Admin Expense(D)'' = Inr 80"
  "dict_get historical_data ''Financial Expense(E)'' = Inr 20"
  by (simp_all add: dict_get_def historical_data_def)

lemma pl_data_hist: "pl_data historical_data w = Inr
   (let revenues = pl_revenues 1000 (revenue_growth_rates w);
        costs = 600 # times_ratio (tl revenues) (cost_ratios w);
        sales_expenses = 100 # times_ratio (tl revenues) (sales_expense_ratios w);
        management_expenses = 80 # times_ratio (tl revenues) (management_expense_ratios w);
        financial_expenses = 20 # times_ratio (tl revenues) (financial_expense_ratios w) in
      [(''Revenue(A)'', revenues),
             (''Cost(B)'', costs),
             (''Gross Profit(A-B)'', map (\<lambda>(rev, cost). float_sub rev cost) (zip revenues costs)),
             (''Selling Expense(C)'', sales_expenses),
             (''Admin Expense(D)'', management_expenses),
             (''Financial Expense(E)'', financial_expenses),
             (''Net Profit(A-B-C-D-E)'',
              map (\<lambda>(rev, cost, sales, mgmt, fin).
                     float_sub (float_sub (float_sub (float_sub rev cost) sales) mgmt) fin)
             (zip revenues (zip costs (zip sales_expenses (zip management_expenses financial_expenses)))))])"
  by (simp add: pl_data_def hist_gets Let_def)

lemma DataFrame_T_Inr: "DataFrame_T data idx = Inr df \<longleftrightarrow> df = data \<and> list_all (\<lambda>(k, vs). length vs = length idx) data"
  by (auto simp: DataFrame_T_def)

lemma pl_generate_Inr:
  assumes "pl_generate historical_data w = Inr df"
  shows "pl_data historical_data w = Inr df"
    and "length (revenue_growth_rates w) = 3"
    and "3 \<le> length (cost_ratios w)"
    and "3 \<le> length (sales_expense_ratios w)"
    and "3 \<le> length (management_expense_ratios w)"
    and "3 \<le> length (financial_expense_ratios w)"
proof -
  from assms obtain data where d: "pl_data historical_data w = Inr data"
    and f: "DataFrame_T data forecast_years = Inr df"
    unfolding pl_generate_def and_then_Inr_iff by blast
  from f have eq: "df = data" and all: "list_all (\<lambda>(k, vs). length vs = length forecast_years) data"
    by (simp_all add: DataFrame_T_Inr)
  show "pl_data historical_data w = Inr df" using d eq by simp
  from d have data: "data = (let revenues = pl_revenues 1000 (revenue_growth_rates w);
        costs = 600 # times_ratio (tl revenues) (cost_ratios w);
        sales_expenses = 100 # times_ratio (tl revenues) (sales_expense_ratios w);
        management_expenses = 80 # times_ratio (tl revenues) (management_expense_ratios w);
        financial_expenses = 20 # times_ratio (tl revenues) (financial_expense_ratios w) in
      [(''Revenue(A)'', revenues),
             (''Cost(B)'', costs),
             (''Gross Profit(A-B)'', map (\<lambda>(rev, cost). float_sub rev cost) (zip revenues costs)),
             (''Selling Expense(C)'', sales_expenses),
             (''Admin Expense(D)'', management_expenses),
             (''Financial Expense(E)'', financial_expenses),
             (''Net Profit(A-B-C-D-E)'',
              map (\<lambda>(rev, cost, sales, mgmt, fin).
                     float_sub (float_sub (float_sub (float_sub rev cost) sales) mgmt) fin)
             (zip revenues (zip costs (zip sales_expenses (zip management_expenses financial_expenses)))))])"
    by (simp add: pl_data_hist)
  from all have l1: "length (pl_revenues 1000 (revenue_growth_rates w)) = 4"
    and l2: "length (times_ratio (tl (pl_revenues 1000 (revenue_growth_rates w))) (cost_ratios w)) = 3"
    and l3: "length (times_ratio (tl (pl_revenues 1000 (revenue_growth_rates w))) (sales_expense_ratios w)) = 3"
    and l4: "length (times_ratio (tl (pl_revenues 1000 (revenue_growth_rates w))) (management_expense_ratios w)) = 3"
    and l5: "length (times_ratio (tl (pl_revenues 1000 (revenue_growth_rates w))) (financial_expense_ratios w)) = 3"
    unfolding data Let_def forecast_years_def by simp_all
  from l1 show "length (revenue_growth_rates w) = 3" by (simp add: pl_revenues_length)
  from l2 show "3 \<le> length (cost_ratios w)" by (simp add: times_ratio_length)
  from l3 show "3 \<le> length (sales_expense_ratios w)" by (simp add: times_ratio_length)
  from l4 show "3 \<le> length (management_expense_ratios w)" by (simp add: times_ratio_length)
  from l5 show "3 \<le> length (financial_expense_ratios w)" by (simp add: times_ratio_length)
qed

lemma pl_section_Some:
  "create_profit_loss_section w = Inr (Some df) \<longleftrightarrow> pl_button w \<and> pl_generate historical_data w = Inr df"
  by (auto simp: create_profit_loss_section_def and_then_Inr_iff)

lemma cons_times_ratio_nth:
  assumes "length R = 4" "3 \<le> length rs" "j < 3"
  shows "(c # times_ratio (tl R) rs) ! Suc j = float_mul (R ! Suc j) (rs ! j)"
  using assms by (simp add: times_ratio_nth nth_tl)

lemma pl_rows_formulas:
  assumes ok: "pl_generate historical_data w = Inr df" and j: "j < 3"
  shows "\<exists>revenue cost gross selling admin financial net.
     loc df ''Revenue(A)'' = Inr revenue \<and> loc df ''Cost(B)'' = Inr cost \<and>
     loc df ''Gross Profit(A-B)'' = Inr gross \<and> loc df ''Selling Expense(C)'' = Inr selling \<and>
     loc df ''Admin Expense(D)'' = Inr admin \<and> loc df ''Financial Expense(E)'' = Inr financial \<and>
     loc df ''Net Profit(A-B-C-D-E)'' = Inr net \<and>
     revenue ! Suc j = float_mul (revenue ! j) (float_add 1 (revenue_growth_rates w ! j)) \<and>
     cost ! Suc j = float_mul (revenue ! Suc j) (cost_ratios w ! j) \<and>
     selling ! Suc j = float_mul (revenue ! Suc j) (sales_expense_ratios w ! j) \<and>
     admin ! Suc j = float_mul (revenue ! Suc j) (management_expense_ratios w ! j) \<and>
     financial ! Suc j = float_mul (revenue ! Suc j) (financial_expense_ratios w ! j) \<and>
     gross ! Suc j = float_sub (revenue ! Suc j) (cost ! Suc j) \<and>
     net ! Suc j = float_sub (float_sub (float_sub (float_sub (revenue ! Suc j) (cost ! Suc j))
                      (selling ! Suc j)) (admin ! Suc j)) (financial ! Suc j)"
proof -
  note facts = pl_generate_Inr[OF ok]
  define R where "R = pl_revenues 1000 (revenue_growth_rates w)"
  define C where "C = 600 # times_ratio (tl R) (cost_ratios w)"
  define S where "S = 100 # times_ratio (tl R) (sales_expense_ratios w)"
  define M where "M = 80 # times_ratio (tl R) (management_expense_ratios w)"
  define F where "F = 20 # times_ratio (tl R) (financial_expense_ratios w)"
  define G where "G = map (\<lambda>(rev, cost). float_sub rev cost) (zip R C)"
  define N where "N = map (\<lambda>(rev, cost, sales, mgmt, fin).
                     float_sub (float_sub (float_sub (float_sub rev cost) sales) mgmt) fin)
             (zip R (zip C (zip S (zip M F))))"
  have df: "df = [(''Revenue(A)'', R), (''Cost(B)'', C), (''Gross Profit(A-B)'', G),
      (''Selling Expense(C)'', S), (''Admin Expense(D)'', M), (''Financial Expense(E)'', F),
      (''Net Profit(A-B-C-D-E)'', N)]"
    using facts(1) unfolding pl_data_hist Let_def R_def C_def S_def M_def F_def G_def N_def by simp
  have lR: "length R = 4" using facts(2) by (simp add: R_def pl_revenues_length)
  have lC: "length C = 4" using facts(3) lR by (simp add: C_def times_ratio_length)
  have lS: "length S = 4" using facts(4) lR by (simp add: S_def times_ratio_length)
  have lM: "length M = 4" using facts(5) lR by (simp add: M_def times_ratio_length)
  have lF: "length F = 4" using facts(6) lR by (simp add: F_def times_ratio_length)
  have r: "R ! Suc j = float_mul (R ! j) (float_add 1 (revenue_growth_rates w ! j))"
    using j facts(2) by (simp add: R_def pl_revenues_Suc)
  have c: "C ! Suc j = float_mul (R ! Suc j) (cost_ratios w ! j)"
    unfolding C_def using lR facts(3) j by (rule cons_times_ratio_nth)
  have s: "S ! Suc j = float_mul (R ! Suc j) (sales_expense_ratios w ! j)"
    unfolding S_def using lR facts(4) j by (rule cons_times_ratio_nth)
  have m: "M ! Suc j = float_mul (R ! Suc j) (management_expense_ratios w ! j)"
    unfolding M_def using lR facts(5) j by (rule cons_times_ratio_nth)
  have f: "F ! Suc j = float_mul (R ! Suc j) (financial_expense_ratios w ! j)"
    unfolding F_def using lR facts(6) j by (rule cons_times_ratio_nth)
  have g: "G ! Suc j = float_sub (R ! Suc j) (C ! Suc j)"
    using j lR lC by (simp add: G_def)
  have n: "N ! Suc j = float_sub (float_sub (float_sub (float_sub (R ! Suc j) (C ! Suc j))
                      (S ! Suc j)) (M ! Suc j)) (F ! Suc j)"
    using j lR lC lS lM lF by (simp add: N_def)
  have locs: "loc df ''Revenue(A)'' = Inr R" "loc df ''Cost(B)'' = Inr C"
     "loc df ''Gross Profit(A-B)'' = Inr G" "loc df ''Selling Expense(C)'' = Inr S"
     "loc df ''Admin Expense(D)'' = Inr M" "loc df ''Financial Expense(E)'' = Inr F"
     "loc df ''Net Profit(A-B-C-D-E)'' = Inr N"
    unfolding df by (simp_all add: loc_def dict_get_def)
  show ?thesis using locs r c s m f g n by blast
qed

text \<open>
  Revenue never falls below 512 while the growth rates are not negative: rounding to the
  nearest double does not cross a power of two.
\<close>

lemma revenue_step_ge:
  assumes "512 \<le> r" "0 \<le> g"
  shows "512 \<le> float_mul r (float_add 1 g)"
proof -
  have "2 powi 0 \<le> float64 (1 + g)" using assms(2) by (intro float64_ge_power) simp_all
  then have "1 \<le> float_add 1 g" by (simp add: float_add_def)
  then have "512 * 1 \<le> r * float_add 1 g" using assms(1) by (intro mult_mono) simp_all
  then have "2 powi 9 \<le> r * float_add 1 g" by simp
  then have "2 powi 9 \<le> float64 (r * float_add 1 g)" by (rule float64_ge_power) simp
  then show ?thesis by (simp add: float_mul_def)
qed

lemma fold_rev_ge:
  "list_all (\<lambda>g. 0 \<le> g) rates \<Longrightarrow> acc \<noteq> [] \<Longrightarrow> list_all (\<lambda>r. 512 \<le> r) acc \<Longrightarrow>
   list_all (\<lambda>r. 512 \<le> r)
     (fold (\<lambda>g revs. revs @ [float_mul (last revs) (float_add 1 g)]) rates acc)"
proof (induction rates arbitrary: acc)
  case Nil then show ?case by simp
next
  case (Cons g rates)
  from Cons.prems have "512 \<le> last acc" by (simp add: list_all_iff)
  with Cons.prems have "512 \<le> float_mul (last acc) (float_add 1 g)"
    by (intro revenue_step_ge) simp_all
  with Cons.prems show ?case by (simp add: Cons.IH)
qed

lemma pl_revenues_ge:
  "list_all (\<lambda>g. 0 \<le> g) rates \<Longrightarrow> list_all (\<lambda>r. 512 \<le> r) (pl_revenues 1000 rates)"
  unfolding pl_revenues_def by (rule fold_rev_ge) simp_all

lemma float_div_all_total:
  "length xs = length ys \<Longrightarrow> list_all (\<lambda>y. y \<noteq> 0) ys \<Longrightarrow>
   \<exists>qs. float_div_all (zip xs ys) = Inr qs \<and> length qs = length ys"
proof (induction ys arbitrary: xs)
  case Nil then show ?case by simp
next
  case (Cons y ys)
  then obtain x xs' where xs: "xs = x # xs'" by (cases xs) auto
  with Cons.prems have "length xs' = length ys" "list_all (\<lambda>y. y \<noteq> 0) ys" "y \<noteq> 0" by simp_all
  with Cons.IH[of xs'] obtain qs where "float_div_all (zip xs' ys) = Inr qs" "length qs = length ys"
    by blast
  then show ?case using xs \<open>y \<noteq> 0\<close> by (simp add: float_div_def)
qed

lemma pl_metrics_total:
  assumes "length R = 4" "length G = 4" "length N = 4" "list_all (\<lambda>r. 512 \<le> r) R"
  shows "\<exists>m. pl_metrics R G N = Inr m"
proof -
  from assms(4) have nz: "list_all (\<lambda>y. y \<noteq> 0) R" by (auto simp: list_all_iff)
  from float_div_all_total[OF _ nz, of G] assms obtain gm where
    gm: "float_div_all (zip G R) = Inr gm" "length gm = 4" by auto
  from float_div_all_total[OF _ nz, of N] assms obtain nm where
    nm: "float_div_all (zip N R) = Inr nm" "length nm = 4" by auto
  from assms(1) have ne: "R \<noteq> []" by auto
  with assms(4) have h: "512 \<le> hd R" and l: "512 \<le> last R" by (auto simp: list_all_iff)
  then have "0 \<le> last R / hd R" by simp
  then have "0 \<le> float64 (last R / hd R)" by (rule float64_nonneg)
  moreover have "gm \<noteq> []" "nm \<noteq> []" using gm(2) nm(2) by auto
  ultimately show ?thesis using gm(1) nm(1) h
    by (simp add: pl_metrics_def get_last_def float_div_def)
qed

lemma pl_generate_total:
  assumes "pl_widgets_ok w"
  shows "\<exists>df. pl_generate historical_data w = Inr df"
proof -
  define R where "R = pl_revenues 1000 (revenue_growth_rates w)"
  define C where "C = 600 # times_ratio (tl R) (cost_ratios w)"
  define S where "S = 100 # times_ratio (tl R) (sales_expense_ratios w)"
  define M where "M = 80 # times_ratio (tl R) (management_expense_ratios w)"
  define F where "F = 20 # times_ratio (tl R) (financial_expense_ratios w)"
  define G where "G = map (\<lambda>(rev, cost). float_sub rev cost) (zip R C)"
  define N where "N = map (\<lambda>(rev, cost, sales, mgmt, fin).
                     float_sub (float_sub (float_sub (float_sub rev cost) sales) mgmt) fin)
             (zip R (zip C (zip S (zip M F))))"
  define data where "data = [(''Revenue(A)'', R), (''Cost(B)'', C), (''Gross Profit(A-B)'', G),
      (''Selling Expense(C)'', S), (''Admin Expense(D)'', M), (''Financial Expense(E)'', F),
      (''Net Profit(A-B-C-D-E)'', N)]"
  have d: "pl_data historical_data w = Inr data"
    unfolding pl_data_hist Let_def data_def R_def C_def S_def M_def F_def G_def N_def by simp
  from assms have lens: "length (revenue_growth_rates w) = 3" "length (cost_ratios w) = 3"
    "length (sales_expense_ratios w) = 3" "length (management_expense_ratios w) = 3"
    "length (financial_expense_ratios w) = 3"
    and g: "list_all (\<lambda>g. 0 \<le> g) (revenue_growth_rates w)"
    by (auto simp: pl_widgets_ok_def list_all_iff)
  have lR: "length R = 4" using lens by (simp add: R_def pl_revenues_length)
  have lC: "length C = 4" using lens lR by (simp add: C_def times_ratio_length)
  have lS: "length S = 4" using lens lR by (simp add: S_def times_ratio_length)
  have lM: "length M = 4" using lens lR by (simp add: M_def times_ratio_length)
  have lF: "length F = 4" using lens lR by (simp add: F_def times_ratio_length)
  have lG: "length G = 4" using lR lC by (simp add: G_def)
  have lN: "length N = 4" using lR lC lS lM lF by (simp add: N_def)
  have t: "DataFrame_T data forecast_years = Inr data"
    using lR lC lS lM lF lG lN by (simp add: DataFrame_T_def data_def forecast_years_def)
  have gets: "dict_get data ''Revenue(A)'' = Inr R" "dict_get data ''Gross Profit(A-B)'' = Inr G"
    "dict_get data ''Net Profit(A-B-C-D-E)'' = Inr N"
    by (simp_all add: data_def dict_get_def)
  have "list_all (\<lambda>r. 512 \<le> r) R" unfolding R_def using g by (rule pl_revenues_ge)
  from pl_metrics_total[OF lR lG lN this] obtain m where "pl_metrics R G N = Inr m" ..
  then have "pl_generate historical_data w = Inr data"
    by (simp add: pl_generate_def d t gets)
  then show ?thesis ..
qed

lemma pl_section_total:
  "pl_button w \<Longrightarrow> pl_widgets_ok w \<Longrightarrow> \<exists>df. create_profit_loss_section w = Inr (Some df)"
  using pl_generate_total[of w] by (auto simp: pl_section_Some)

text \<open>The default scenario, operation by operation.\<close>

lemma pl_defaults_roundings:
  "float64 (15 / 100) = 5404319552844595 / 36028797018963968"
  "float64 (60 / 100) = 5404319552844595 / 9007199254740992"
  "float64 (10 / 100) = 3602879701896397 / 36028797018963968"
  "float64 (7 / 100) = 1261007895663739 / 18014398509481984"
  "float64 (2 / 100) = 5764607523034235 / 288230376151711744"
  "float_add 1 (5404319552844595 / 36028797018963968) = 2589569785738035 / 2251799813685248"
  "float_mul 1000 (2589569785738035 / 2251799813685248) = 1150"
  "float_mul 1150 (2589569785738035 / 2251799813685248) = 2645 / 2"
  "float_mul (2645 / 2) (2589569785738035 / 2251799813685248) = 6688878987575295 / 4398046511104"
  "float_mul 1150 (5404319552844595 / 9007199254740992) = 690"
  "float_mul (2645 / 2) (5404319552844595 / 9007199254740992) = 1587 / 2"
  "float_mul (6688878987575295 / 4398046511104) (5404319552844595 / 9007199254740992) = 4013327392545177 / 4398046511104"
  "float_sub 1000 600 = 400"
  "float_sub 1150 690 = 460"
  "float_sub (2645 / 2) (1587 / 2) = 529"
  "float_sub (6688878987575295 / 4398046511104) (4013327392545177 / 4398046511104) = 1337775797515059 / 2199023255552"
  "float_mul 1150 (3602879701896397 / 36028797018963968) = 115"
  "float_mul (2645 / 2) (3602879701896397 / 36028797018963968) = 529 / 4"
  "float_mul (6688878987575295 / 4398046511104) (3602879701896397 / 36028797018963968) = 1337775797515059 / 8796093022208"
  "float_mul 1150 (1261007895663739 / 18014398509481984) = 5664683906301953 / 70368744177664"
  "float_mul (2645 / 2) (1261007895663739 / 18014398509481984) = 6514386492247245 / 70368744177664"
  "float_mul (6688878987575295 / 4398046511104) (1261007895663739 / 18014398509481984) = 7491544466084331 / 70368744177664"
  "float_mul 1150 (5764607523034235 / 288230376151711744) = 23"
  "float_mul (2645 / 2) (5764607523034235 / 288230376151711744) = 7445013133996851 / 281474976710656"
  "float_mul (6688878987575295 / 4398046511104) (5764607523034235 / 288230376151711744) = 4280882552048189 / 140737488355328"
  "float_sub 400 100 = 300"
  "float_sub 300 80 = 220"
  "float_sub 220 20 = 200"
  "float_sub 460 115 = 345"
  "float_sub 345 (5664683906301953 / 70368744177664) = 529 / 2"
  "float_sub (529 / 2) 23 = 483 / 2"
  "float_sub 529 (529 / 4) = 1587 / 4"
  "float_sub (1587 / 4) (6514386492247245 / 70368744177664) = 5351103190060237 / 17592186044416"
  "float_sub (5351103190060237 / 17592186044416) (7445013133996851 / 281474976710656) = 2442894934592717 / 8796093022208"
  "float_sub (1337775797515059 / 2199023255552) (1337775797515059 / 8796093022208) = 4013327392545177 / 8796093022208"
  "float_sub (4013327392545177 / 8796093022208) (7491544466084331 / 70368744177664) = 6153768668569271 / 17592186044416"
  "float_sub (6153768668569271 / 17592186044416) (4280882552048189 / 140737488355328) = 5618658349563247 / 17592186044416"
proof -
  show "float64 (15 / 100) = 5404319552844595 / 36028797018963968"
    using float64_nearest[of "- 3" "15 / 100" 5404319552844595] by (simp)
  show "float64 (60 / 100) = 5404319552844595 / 9007199254740992"
    using float64_nearest[of "- 1" "60 / 100" 5404319552844595] by (simp)
  show "float64 (10 / 100) = 3602879701896397 / 36028797018963968"
    using float64_nearest[of "- 4" "10 / 100" 7205759403792794] by (simp)
  show "float64 (7 / 100) = 1261007895663739 / 18014398509481984"
    using float64_nearest[of "- 4" "7 / 100" 5044031582654956] by (simp)
  show "float64 (2 / 100) = 5764607523034235 / 288230376151711744"
    using float64_nearest[of "- 6" "2 / 100" 5764607523034235] by (simp)
  show "float_add 1 (5404319552844595 / 36028797018963968) = 2589569785738035 / 2251799813685248"
    using float64_nearest[of "0" "1 + (5404319552844595 / 36028797018963968)" 5179139571476070] by (simp add: float_add_def)
  show "float_mul 1000 (2589569785738035 / 2251799813685248) = 1150"
    using float64_nearest[of "10" "1000 * (2589569785738035 / 2251799813685248)" 5057753487769600] by (simp add: float_mul_def)
  show "float_mul 1150 (2589569785738035 / 2251799813685248) = 2645 / 2"
    using float64_nearest[of "10" "1150 * (2589569785738035 / 2251799813685248)" 5816416510935040] by (simp add: float_mul_def)
  show "float_mul (2645 / 2) (2589569785738035 / 2251799813685248) = 6688878987575295 / 4398046511104"
    using float64_nearest[of "10" "(2645 / 2) * (2589569785738035 / 2251799813685248)" 6688878987575295] by (simp add: float_mul_def)
  show "float_mul 1150 (5404319552844595 / 9007199254740992) = 690"
    using float64_nearest[of "9" "1150 * (5404319552844595 / 9007199254740992)" 6069304185323520] by (simp add: float_mul_def)
  show "float_mul (2645 / 2) (5404319552844595 / 9007199254740992) = 1587 / 2"
    using float64_nearest[of "9" "(2645 / 2) * (5404319552844595 / 9007199254740992)" 6979699813122048] by (simp add: float_mul_def)
  show "float_mul (6688878987575295 / 4398046511104) (5404319552844595 / 9007199254740992) = 4013327392545177 / 4398046511104"
    using float64_nearest[of "9" "(6688878987575295 / 4398046511104) * (5404319552844595 / 9007199254740992)" 8026654785090354] by (simp add: float_mul_def)
  show "float_sub 1000 600 = 400"
    using float64_nearest[of "8" "1000 - 600" 7036874417766400] by (simp add: float_sub_def)
  show "float_sub 1150 690 = 460"
    using float64_nearest[of "8" "1150 - 690" 8092405580431360] by (simp add: float_sub_def)
  show "float_sub (2645 / 2) (1587 / 2) = 529"
    using float64_nearest[of "9" "(2645 / 2) - (1587 / 2)" 4653133208748032] by (simp add: float_sub_def)
  show "float_sub (6688878987575295 / 4398046511104) (4013327392545177 / 4398046511104) = 1337775797515059 / 2199023255552"
    using float64_nearest[of "9" "(6688878987575295 / 4398046511104) - (4013327392545177 / 4398046511104)" 5351103190060236] by (simp add: float_sub_def)
  show "float_mul 1150 (3602879701896397 / 36028797018963968) = 115"
    using float64_nearest[of "6" "1150 * (3602879701896397 / 36028797018963968)" 8092405580431360] by (simp add: float_mul_def)
  show "float_mul (2645 / 2) (3602879701896397 / 36028797018963968) = 529 / 4"
    using float64_nearest[of "7" "(2645 / 2) * (3602879701896397 / 36028797018963968)" 4653133208748032] by (simp add: float_mul_def)
  show "float_mul (6688878987575295 / 4398046511104) (3602879701896397 / 36028797018963968) = 1337775797515059 / 8796093022208"
    using float64_nearest[of "7" "(6688878987575295 / 4398046511104) * (3602879701896397 / 36028797018963968)" 5351103190060236] by (simp add: float_mul_def)
  show "float_mul 1150 (1261007895663739 / 18014398509481984) = 5664683906301953 / 70368744177664"
    using float64_nearest[of "6" "1150 * (1261007895663739 / 18014398509481984)" 5664683906301953] by (simp add: float_mul_def)
  show "float_mul (2645 / 2) (1261007895663739 / 18014398509481984) = 6514386492247245 / 70368744177664"
    using float64_nearest[of "6" "(2645 / 2) * (1261007895663739 / 18014398509481984)" 6514386492247245] by (simp add: float_mul_def)
  show "float_mul (6688878987575295 / 4398046511104) (1261007895663739 / 18014398509481984) = 7491544466084331 / 70368744177664"
    using float64_nearest[of "6" "(6688878987575295 / 4398046511104) * (1261007895663739 / 18014398509481984)" 7491544466084331] by (simp add: float_mul_def)
  show "float_mul 1150 (5764607523034235 / 288230376151711744) = 23"
    using float64_nearest[of "4" "1150 * (5764607523034235 / 288230376151711744)" 6473924464345088] by (simp add: float_mul_def)
  show "float_mul (2645 / 2) (5764607523034235 / 288230376151711744) = 7445013133996851 / 281474976710656"
    using float64_nearest[of "4" "(2645 / 2) * (5764607523034235 / 288230376151711744)" 7445013133996851] by (simp add: float_mul_def)
  show "float_mul (6688878987575295 / 4398046511104) (5764607523034235 / 288230376151711744) = 4280882552048189 / 140737488355328"
    using float64_nearest[of "4" "(6688878987575295 / 4398046511104) * (5764607523034235 / 288230376151711744)" 8561765104096378] by (simp add: float_mul_def)
  show "float_sub 400 100 = 300"
    using float64_nearest[of "8" "400 - 100" 5277655813324800] by (simp add: float_sub_def)
  show "float_sub 300 80 = 220"
    using float64_nearest[of "7" "300 - 80" 7740561859543040] by (simp add: float_sub_def)
  show "float_sub 220 20 = 200"
    using float64_nearest[of "7" "220 - 20" 7036874417766400] by (simp add: float_sub_def)
  show "float_sub 460 115 = 345"
    using float64_nearest[of "8" "460 - 115" 6069304185323520] by (simp add: float_sub_def)
  show "float_sub 345 (5664683906301953 / 70368744177664) = 529 / 2"
    using float64_nearest[of "8" "345 - (5664683906301953 / 70368744177664)" 4653133208748032] by (simp add: float_sub_def)
  show "float_sub (529 / 2) 23 = 483 / 2"
    using float64_nearest[of "7" "(529 / 2) - 23" 8497025859452928] by (simp add: float_sub_def)
  show "float_sub 529 (529 / 4) = 1587 / 4"
    using float64_nearest[of "8" "529 - (529 / 4)" 6979699813122048] by (simp add: float_sub_def)
  show "float_sub (1587 / 4) (6514386492247245 / 70368744177664) = 5351103190060237 / 17592186044416"
    using float64_nearest[of "8" "(1587 / 4) - (6514386492247245 / 70368744177664)" 5351103190060237] by (simp add: float_sub_def)
  show "float_sub (5351103190060237 / 17592186044416) (7445013133996851 / 281474976710656) = 2442894934592717 / 8796093022208"
    using float64_nearest[of "8" "(5351103190060237 / 17592186044416) - (7445013133996851 / 281474976710656)" 4885789869185434] by (simp add: float_sub_def)
  show "float_sub (1337775797515059 / 2199023255552) (1337775797515059 / 8796093022208) = 4013327392545177 / 8796093022208"
    using float64_nearest[of "8" "(1337775797515059 / 2199023255552) - (1337775797515059 / 8796093022208)" 8026654785090354] by (simp add: float_sub_def)
  show "float_sub (4013327392545177 / 8796093022208) (7491544466084331 / 70368744177664) = 6153768668569271 / 17592186044416"
    using float64_nearest[of "8" "(4013327392545177 / 8796093022208) - (7491544466084331 / 70368744177664)" 6153768668569271] by (simp add: float_sub_def)
  show "float_sub (6153768668569271 / 17592186044416) (4280882552048189 / 140737488355328) = 5618658349563247 / 17592186044416"
    using float64_nearest[of "8" "(6153768668569271 / 17592186044416) - (4280882552048189 / 140737488355328)" 5618658349563247] by (simp add: float_sub_def)
qed

lemma pl_defaults_values:
  "pl_defaults =
     \<lparr>pl_button = True,
      revenue_growth_rates = [5404319552844595 / 36028797018963968, 5404319552844595 / 36028797018963968, 5404319552844595 / 36028797018963968],
      cost_ratios = [5404319552844595 / 9007199254740992, 5404319552844595 / 9007199254740992, 5404319552844595 / 9007199254740992],
      sales_expense_ratios = [3602879701896397 / 36028797018963968, 3602879701896397 / 36028797018963968, 3602879701896397 / 36028797018963968],
      management_expense_ratios = [1261007895663739 / 18014398509481984, 1261007895663739 / 18014398509481984, 1261007895663739 / 18014398509481984],
      financial_expense_ratios = [5764607523034235 / 288230376151711744, 5764607523034235 / 288230376151711744, 5764607523034235 / 288230376151711744]\<rparr>"
  unfolding pl_defaults_def pl_defaults_roundings(1-5) ..

lemma pl_defaults_data:
  "pl_data historical_data pl_defaults = Inr
     [(''Revenue(A)'', [1000, 1150, 2645 / 2 ^ 1, 6688878987575295 / 2 ^ 42]),
      (''Cost(B)'', [600, 690, 1587 / 2 ^ 1, 4013327392545177 / 2 ^ 42]),
      (''Gross Profit(A-B)'', [400, 460, 529, 1337775797515059 / 2 ^ 41]),
      (''Selling Expense(C)'', [100, 115, 529 / 2 ^ 2, 1337775797515059 / 2 ^ 43]),
      (''Admin Expense(D)'', [80, 5664683906301953 / 2 ^ 46, 6514386492247245 / 2 ^ 46, 7491544466084331 / 2 ^ 46]),
      (''Financial Expense(E)'', [20, 23, 7445013133996851 / 2 ^ 48, 4280882552048189 / 2 ^ 47]),
      (''Net Profit(A-B-C-D-E)'', [200, 483 / 2 ^ 1, 2442894934592717 / 2 ^ 43, 5618658349563247 / 2 ^ 44])]"
  by (simp add: pl_data_hist pl_defaults_values pl_revenues_def times_ratio_def pl_defaults_roundings)

lemma pl_defaults_ok: "pl_widgets_ok pl_defaults \<and> pl_button pl_defaults"
  by (simp add: pl_defaults_values pl_widgets_ok_def)

lemma pl_defaults_section:
  "create_profit_loss_section pl_defaults = Inr (Some
     [(''Revenue(A)'', [1000, 1150, 2645 / 2 ^ 1, 6688878987575295 / 2 ^ 42]),
      (''Cost(B)'', [600, 690, 1587 / 2 ^ 1, 4013327392545177 / 2 ^ 42]),
      (''Gross Profit(A-B)'', [400, 460, 529, 1337775797515059 / 2 ^ 41]),
      (''Selling Expense(C)'', [100, 115, 529 / 2 ^ 2, 1337775797515059 / 2 ^ 43]),
      (''Admin Expense(D)'', [80, 5664683906301953 / 2 ^ 46, 6514386492247245 / 2 ^ 46, 7491544466084331 / 2 ^ 46]),
      (''Financial Expense(E)'', [20, 23, 7445013133996851 / 2 ^ 48, 4280882552048189 / 2 ^ 47]),
      (''Net Profit(A-B-C-D-E)'', [200, 483 / 2 ^ 1, 2442894934592717 / 2 ^ 43, 5618658349563247 / 2 ^ 44])])"
proof -
  from pl_defaults_ok obtain df where df: "create_profit_loss_section pl_defaults = Inr (Some df)"
    using pl_section_total by blast
  then have "pl_generate historical_data pl_defaults = Inr df" by (simp add: pl_section_Some)
  then have "pl_data historical_data pl_defaults = Inr df" by (rule pl_generate_Inr(1))
  then show ?thesis using df by (simp only: pl_defaults_data sum.inject)
qed

section \<open>The P&L forecast\<close>

text \<open>
  Claim C2, the scenario as the spec states it. With all sliders at their defaults the
  section returns the table below. Its revenue of period 3 is the double next below
  1520.875 (Python prints it as 1520.8749999999998), because the growth factor
  \<^verbatim>\<open>1 + 0.15\<close> is a double slightly below 1.15 and the product \<^verbatim>\<open>1322.5 * 1.15\<close> is
  rounded down; the revenue row is therefore not [1000, 1150, 1322.5, 1520.875].
\<close>

theorem pl_default_revenue_counterexample:
  "create_profit_loss_section pl_defaults = Inr (Some
     [(''Revenue(A)'', [1000, 1150, 1322.5, 1520.875 - 1 / 2 ^ 42]),
      (''Cost(B)'', [600, 690, 793.5, 4013327392545177 / 2 ^ 42]),
      (''Gross Profit(A-B)'', [400, 460, 529, 1337775797515059 / 2 ^ 41]),
      (''Selling Expense(C)'', [100, 115, 132.25, 1337775797515059 / 2 ^ 43]),
      (''Admin Expense(D)'', [80, 5664683906301953 / 2 ^ 46, 6514386492247245 / 2 ^ 46, 7491544466084331 / 2 ^ 46]),
      (''Financial Expense(E)'', [20, 23, 7445013133996851 / 2 ^ 48, 4280882552048189 / 2 ^ 47]),
      (''Net Profit(A-B-C-D-E)'', [200, 241.5, 2442894934592717 / 2 ^ 43, 5618658349563247 / 2 ^ 44])]) \<and>
   [1000, 1150, 1322.5, 1520.875 - 1 / 2 ^ 42] \<noteq> [1000, 1150, 1322.5, (1520.875::real)]"
  by (simp add: pl_defaults_section)

text \<open>
  Claim C2 (amended). Whenever the P&L section returns a table, every forecast period \<open>i\<close>
  of 1..3 has, in binary64 arithmetic, Revenue[i] = Revenue[i-1] * (1 + growth of period i),
  each of Cost, Selling, Admin and Financial Expense equal to Revenue[i] times its ratio of
  period i, Gross Profit[i] = Revenue[i] - Cost[i] and Net Profit[i] = Revenue[i] - Cost[i]
  - the three expenses, subtracted from left to right (the ratio of forecast period \<open>i\<close> is
  entry \<open>i - 1\<close> of its list). The section does return a table whenever the button is
  pressed and the sliders are in their ranges. With all sliders at their defaults the
  revenues are 1000, 1150, 1322.5 and 1520.875 less one unit in the last place, and the net
  profit of period 1 is 241.5.
\<close>

theorem pl_forecast_formulas:
  "(\<forall>w df i. create_profit_loss_section w = Inr (Some df) \<longrightarrow> i \<in> {1, 2, 3} \<longrightarrow>
      (\<exists>revenue cost gross selling admin financial net.
         loc df ''Revenue(A)'' = Inr revenue \<and> loc df ''Cost(B)'' = Inr cost \<and>
         loc df ''Gross Profit(A-B)'' = Inr gross \<and> loc df ''Selling Expense(C)'' = Inr selling \<and>
         loc df ''Admin Expense(D)'' = Inr admin \<and> loc df ''Financial Expense(E)'' = Inr financial \<and>
         loc df ''Net Profit(A-B-C-D-E)'' = Inr net \<and>
         revenue ! i = float_mul (revenue ! (i - 1)) (float_add 1 (revenue_growth_rates w ! (i - 1))) \<and>
         cost ! i = float_mul (revenue ! i) (cost_ratios w ! (i - 1)) \<and>
         selling ! i = float_mul (revenue ! i) (sales_expense_ratios w ! (i - 1)) \<and>
         admin ! i = float_mul (revenue ! i) (management_expense_ratios w ! (i - 1)) \<and>
         financial ! i = float_mul (revenue ! i) (financial_expense_ratios w ! (i - 1)) \<and>
         gross ! i = float_sub (revenue ! i) (cost ! i) \<and>
         net ! i = float_sub (float_sub (float_sub (float_sub (revenue ! i) (cost ! i))
                      (selling ! i)) (admin ! i)) (financial ! i))) \<and>
   (\<forall>w. pl_button w \<longrightarrow> pl_widgets_ok w \<longrightarrow>
      (\<exists>df. create_profit_loss_section w = Inr (Some df))) \<and>
   (\<exists>df net. create_profit_loss_section pl_defaults = Inr (Some df) \<and>
      loc df ''Revenue(A)'' = Inr [1000, 1150, 1322.5, 1520.875 - 1 / 2 ^ 42] \<and>
      loc df ''Net Profit(A-B-C-D-E)'' = Inr net \<and> net ! 1 = 241.5)"
proof (intro conjI allI impI)
  fix w df and i :: nat
  assume ok: "create_profit_loss_section w = Inr (Some df)" and i: "i \<in> {1, 2, 3}"
  from ok have gen: "pl_generate historical_data w = Inr df" by (simp add: pl_section_Some)
  from i obtain j where j: "i = Suc j" "j < 3" by (cases i) auto
  from pl_rows_formulas[OF gen j(2)] j(1)
  show "(\<exists>revenue cost gross selling admin financial net.
         loc df ''Revenue(A)'' = Inr revenue \<and> loc df ''Cost(B)'' = Inr cost \<and>
         loc df ''Gross Profit(A-B)'' = Inr gross \<and> loc df ''Selling Expense(C)'' = Inr selling \<and>
         loc df ''Admin Expense(D)'' = Inr admin \<and> loc df ''Financial Expense(E)'' = Inr financial \<and>
         loc df ''Net Profit(A-B-C-D-E)'' = Inr net \<and>
         revenue ! i = float_mul (revenue ! (i - 1)) (float_add 1 (revenue_growth_rates w ! (i - 1))) \<and>
         cost ! i = float_mul (revenue ! i) (cost_ratios w ! (i - 1)) \<and>
         selling ! i = float_mul (revenue ! i) (sales_expense_ratios w ! (i - 1)) \<and>
         admin ! i = float_mul (revenue ! i) (management_expense_ratios w ! (i - 1)) \<and>
         financial ! i = float_mul (revenue ! i) (financial_expense_ratios w ! (i - 1)) \<and>
         gross ! i = float_sub (revenue ! i) (cost ! i) \<and>
         net ! i = float_sub (float_sub (float_sub (float_sub (revenue ! i) (cost ! i))
                      (selling ! i)) (admin ! i)) (financial ! i))"
    by simp
next
  fix w assume "pl_button w" "pl_widgets_ok w"
  then show "\<exists>df. create_profit_loss_section w = Inr (Some df)" by (rule pl_section_total)
next
  show "(\<exists>df net. create_profit_loss_section pl_defaults = Inr (Some df) \<and>
      loc df ''Revenue(A)'' = Inr [1000, 1150, 1322.5, 1520.875 - 1 / 2 ^ 42] \<and>
      loc df ''Net Profit(A-B-C-D-E)'' = Inr net \<and> net ! 1 = 241.5)"
    unfolding pl_defaults_section by (simp add: loc_def dict_get_def)
qed

theorem pl_forecast_formulas_witness:
  "pl_button pl_defaults \<and> pl_widgets_ok pl_defaults \<and>
   (\<exists>df revenue. create_profit_loss_section pl_defaults = Inr (Some df) \<and> (2::nat) \<in> {1, 2, 3} \<and>
     loc df ''Revenue(A)'' = Inr revenue \<and>
     revenue ! 2 = float_mul (revenue ! (2 - 1)) (float_add 1 (revenue_growth_rates pl_defaults ! (2 - 1))))"
proof -
  have b: "pl_button pl_defaults" and k: "pl_widgets_ok pl_defaults" using pl_defaults_ok by simp_all
  have two: "(2::nat) \<in> {1, 2, 3}" by simp
  from pl_forecast_formulas have tot: "(\<forall>w. pl_button w \<longrightarrow> pl_widgets_ok w \<longrightarrow>
      (\<exists>df. create_profit_loss_section w = Inr (Some df)))"
    and gen: "(\<forall>w df i. create_profit_loss_section w = Inr (Some df) \<longrightarrow> i \<in> {1, 2, 3} \<longrightarrow>
      (\<exists>revenue cost gross selling admin financial net.
         loc df ''Revenue(A)'' = Inr revenue \<and> loc df ''Cost(B)'' = Inr cost \<and>
         loc df ''Gross Profit(A-B)'' = Inr gross \<and> loc df ''Selling Expense(C)'' = Inr selling \<and>
         loc df ''Admin Expense(D)'' = Inr admin \<and> loc df ''Financial Expense(E)'' = Inr financial \<and>
         loc df ''Net Profit(A-B-C-D-E)'' = Inr net \<and>
         revenue ! i = float_mul (revenue ! (i - 1)) (float_add 1 (revenue_growth_rates w ! (i - 1))) \<and>
         cost ! i = float_mul (revenue ! i) (cost_ratios w ! (i - 1)) \<and>
         selling ! i = float_mul (revenue ! i) (sales_expense_ratios w ! (i - 1)) \<and>
         admin ! i = float_mul (revenue ! i) (management_expense_ratios w ! (i - 1)) \<and>
         financial ! i = float_mul (revenue ! i) (financial_expense_ratios w ! (i - 1)) \<and>
         gross ! i = float_sub (revenue ! i) (cost ! i) \<and>
         net ! i = float_sub (float_sub (float_sub (float_sub (revenue ! i) (cost ! i))
                      (selling ! i)) (admin ! i)) (financial ! i)))"
    by blast+
  from tot b k obtain df where ok: "create_profit_loss_section pl_defaults = Inr (Some df)" by blast
  from gen ok two obtain revenue where "loc df ''Revenue(A)'' = Inr revenue"
     "revenue ! 2 = float_mul (revenue ! (2 - 1)) (float_add 1 (revenue_growth_rates pl_defaults ! (2 - 1)))"
    by blast
  with ok two b k show ?thesis by blast
qed

section \<open>Properties of the Balance Sheet forecaster\<close>

lemma bs_step_explicit:
  "bs_step revs costs nps w i
     [(''Cash(F)'', c), (''Accounts Receivable(G)'', ar), (''Prepayments(H)'', pre),
      (''Fixed Assets(I)'', fa), (''Total Assets(F+G+H+I)'', ta), (''Accounts Payable(J)'', ap),
      (''Advances from Customers(K)'', adv), (''Total Liabilities(J+K)'', tli),
      (''Share Capital(L)'', cap), (''Retained Earnings(M)'', ret), (''Total Equity(L+M)'', te),
      (''Total Liabilities & Equity(J+K+L+M)'', tle)] = Inr fd' \<longleftrightarrow>
   i < length revs \<and> i < length costs \<and> i < length nps \<and> fa \<noteq> [] \<and> cap \<noteq> [] \<and> ret \<noteq> [] \<and>
   fd' =
     [(''Cash(F)'', c @ [(costs ! i * payables_ratio w + revs ! i * advance_ratio w
                          + (last cap + (if i = 1 then capital_increase w else 0) + (last ret + nps ! i)))
                         - (revs ! i * receivables_ratio w + costs ! i * prepayment_ratio w
                            + last fa * (1 + fixed_asset_growth w))]),
      (''Accounts Receivable(G)'', ar @ [revs ! i * receivables_ratio w]),
      (''Prepayments(H)'', pre @ [costs ! i * prepayment_ratio w]),
      (''Fixed Assets(I)'', fa @ [last fa * (1 + fixed_asset_growth w)]),
      (''Total Assets(F+G+H+I)'', ta @ [costs ! i * payables_ratio w + revs ! i * advance_ratio w
                          + (last cap + (if i = 1 then capital_increase w else 0) + (last ret + nps ! i))]),
      (''Accounts Payable(J)'', ap @ [costs ! i * payables_ratio w]),
      (''Advances from Customers(K)'', adv @ [revs ! i * advance_ratio w]),
      (''Total Liabilities(J+K)'', tli @ [costs ! i * payables_ratio w + revs ! i * advance_ratio w]),
      (''Share Capital(L)'', cap @ [last cap + (if i = 1 then capital_increase w else 0)]),
      (''Retained Earnings(M)'', ret @ [last ret + nps ! i]),
      (''Total Equity(L+M)'', te @ [last cap + (if i = 1 then capital_increase w else 0) + (last ret + nps ! i)]),
      (''Total Liabilities & Equity(J+K+L+M)'', tle @ [costs ! i * payables_ratio w + revs ! i * advance_ratio w
                          + (last cap + (if i = 1 then capital_increase w else 0) + (last ret + nps ! i))])]"
  unfolding bs_step_def get_def get_last_def dict_get_def dict_append_def Let_def
  by (auto simp: and_then_Inr_iff)

lemma bs_loop_rows:
  assumes "bs_loop revs costs nps w [1, 2, 3] (map (\<lambda>(k, v). (k, [v])) historical_bs) = Inr fd"
  shows "\<exists>cash ar pre fa ta ap adv tli cap ret te tle.
     fd = [(''Cash(F)'', cash), (''Accounts Receivable(G)'', ar), (''Prepayments(H)'', pre),
           (''Fixed Assets(I)'', fa), (''Total Assets(F+G+H+I)'', ta), (''Accounts Payable(J)'', ap),
           (''Advances from Customers(K)'', adv), (''Total Liabilities(J+K)'', tli),
           (''Share Capital(L)'', cap), (''Retained Earnings(M)'', ret), (''Total Equity(L+M)'', te),
           (''Total Liabilities & Equity(J+K+L+M)'', tle)] \<and>
     3 < length revs \<and> 3 < length costs \<and> 3 < length nps \<and>
     length cash = 4 \<and> length ar = 4 \<and> length pre = 4 \<and> length fa = 4 \<and> length ta = 4 \<and>
     length ap = 4 \<and> length adv = 4 \<and> length tli = 4 \<and> length cap = 4 \<and> length ret = 4 \<and>
     length te = 4 \<and> length tle = 4 \<and>
     cash ! 0 = 1260 \<and> ar ! 0 = 110 \<and> pre ! 0 = 6 \<and> fa ! 0 = 16 \<and> ta ! 0 = 1392 \<and>
     ap ! 0 = 120 \<and> adv ! 0 = 10 \<and> tli ! 0 = 130 \<and> cap ! 0 = 1333.52 \<and> ret ! 0 = - 71.52 \<and>
     te ! 0 = 1262 \<and> tle ! 0 = 1392 \<and>
     (\<forall>i\<in>{1, 2, 3}.
        ar ! i = revs ! i * receivables_ratio w \<and>
        pre ! i = costs ! i * prepayment_ratio w \<and>
        fa ! i = fa ! (i - 1) * (1 + fixed_asset_growth w) \<and>
        ap ! i = costs ! i * payables_ratio w \<and>
        adv ! i = revs ! i * advance_ratio w \<and>
        tli ! i = ap ! i + adv ! i \<and>
        cap ! i = cap ! (i - 1) + (if i = 1 then capital_increase w else 0) \<and>
        ret ! i = ret ! (i - 1) + nps ! i \<and>
        te ! i = cap ! i + ret ! i \<and>
        tle ! i = tli ! i + te ! i \<and>
        ta ! i = tli ! i + te ! i \<and>
        cash ! i = tle ! i - (ar ! i + pre ! i + fa ! i))"
  using assms
  by (simp add: historical_bs_def and_then_Inr_iff bs_step_explicit)

lemma bs_section_Some:
  "create_balance_sheet_section p w = Some df \<longleftrightarrow> bs_button w \<and> bs_generate p w = Inr df"
  by (auto simp: create_balance_sheet_section_def split: sum.splits)

lemma bs_generate_Inr:
  assumes "bs_generate p w = Inr df"
  shows "\<exists>pl revs costs nps m.
     p = Some pl \<and> loc pl ''Revenue(A)'' = Inr revs \<and> loc pl ''Cost(B)'' = Inr costs \<and>
     loc pl ''Net Profit(A-B-C-D-E)'' = Inr nps \<and>
     bs_loop revs costs nps w [1, 2, 3] (map (\<lambda>(k, v). (k, [v])) historical_bs) = Inr df \<and>
     bs_metrics df = Inr m"
  using assms unfolding bs_generate_def
  by (auto simp: and_then_Inr_iff DataFrame_T_Inr Let_def split: option.splits)

lemma bs_defaults_loop:
  "bs_loop [1000, 1150, 1322.5, 1520.87] [600, 690, 793.5, 912.52] [200, 230, 264.5, 304.17]
     bs_defaults [1, 2, 3] (map (\<lambda>(k, v). (k, [v])) historical_bs) = Inr
     [(''Cash(F)'', [1260, 1813.9, 2076.975, 2379.3138]),
      (''Accounts Receivable(G)'', [110, 126.5, 145.475, 167.2957]),
      (''Prepayments(H)'', [6, 6.9, 7.935, 9.1252]),
      (''Fixed Assets(I)'', [16, 19.2, 23.04, 27.648]),
      (''Total Assets(F+G+H+I)'', [1392, 1966.5, 2253.425, 2583.3827]),
      (''Accounts Payable(J)'', [120, 138, 158.7, 182.504]),
      (''Advances from Customers(K)'', [10, 11.5, 13.225, 15.2087]),
      (''Total Liabilities(J+K)'', [130, 149.5, 171.925, 197.7127]),
      (''Share Capital(L)'', [1333.52, 1658.52, 1658.52, 1658.52]),
      (''Retained Earnings(M)'', [-71.52, 158.48, 422.98, 727.15]),
      (''Total Equity(L+M)'', [1262, 1817, 2081.5, 2385.67]),
      (''Total Liabilities & Equity(J+K+L+M)'', [1392, 1966.5, 2253.425, 2583.3827])]"
  by (simp add: historical_bs_def and_then_Inr_iff bs_step_explicit bs_defaults_def)

lemma example_data_locs:
  "loc example_data ''Revenue(A)'' = Inr [1000, 1150, 1322.5, 1520.87]"
  "loc example_data ''Cost(B)'' = Inr [600, 690, 793.5, 912.52]"
  "loc example_data ''Net Profit(A-B-C-D-E)'' = Inr [200, 230, 264.5, 304.17]"
  by (simp_all add: example_data_def loc_def dict_get_def)

lemma bs_defaults_section:
  "create_balance_sheet_section (Some example_data) bs_defaults = Some
     [(''Cash(F)'', [1260, 1813.9, 2076.975, 2379.3138]),
      (''Accounts Receivable(G)'', [110, 126.5, 145.475, 167.2957]),
      (''Prepayments(H)'', [6, 6.9, 7.935, 9.1252]),
      (''Fixed Assets(I)'', [16, 19.2, 23.04, 27.648]),
      (''Total Assets(F+G+H+I)'', [1392, 1966.5, 2253.425, 2583.3827]),
      (''Accounts Payable(J)'', [120, 138, 158.7, 182.504]),
      (''Advances from Customers(K)'', [10, 11.5, 13.225, 15.2087]),
      (''Total Liabilities(J+K)'', [130, 149.5, 171.925, 197.7127]),
      (''Share Capital(L)'', [1333.52, 1658.52, 1658.52, 1658.52]),
      (''Retained Earnings(M)'', [-71.52, 158.48, 422.98, 727.15]),
      (''Total Equity(L+M)'', [1262, 1817, 2081.5, 2385.67]),
      (''Total Liabilities & Equity(J+K+L+M)'', [1392, 1966.5, 2253.425, 2583.3827])]"
  (is "_ = Some ?T")
proof -
  have d: "DataFrame_T ?T years = Inr ?T"
    by (simp add: DataFrame_T_def years_def)
  obtain m where m: "bs_metrics ?T = Inr m"
    by (simp add: bs_metrics_def loc_def dict_get_def py_div_def get_last_def)
  have "bs_generate (Some example_data) bs_defaults = Inr ?T"
    unfolding bs_generate_def
    by (simp only: option.case example_data_locs and_then_simps Let_def bs_defaults_loop d m)
  moreover have "bs_button bs_defaults" by (simp add: bs_defaults_def)
  ultimately show ?thesis by (simp only: bs_section_Some simp_thms)
qed

lemma bs_section_rows:
  assumes "create_balance_sheet_section p w = Some df"
  obtains pl revs costs nps cash ar pre fa ta ap adv tli cap ret te tle where
    "p = Some pl" "loc pl ''Revenue(A)'' = Inr revs" "loc pl ''Cost(B)'' = Inr costs"
    "loc pl ''Net Profit(A-B-C-D-E)'' = Inr nps"
    "3 < length revs" "3 < length costs" "3 < length nps"
    "df = [(''Cash(F)'', cash), (''Accounts Receivable(G)'', ar), (''Prepayments(H)'', pre),
           (''Fixed Assets(I)'', fa), (''Total Assets(F+G+H+I)'', ta), (''Accounts Payable(J)'', ap),
           (''Advances from Customers(K)'', adv), (''Total Liabilities(J+K)'', tli),
           (''Share Capital(L)'', cap), (''Retained Earnings(M)'', ret), (''Total Equity(L+M)'', te),
           (''Total Liabilities & Equity(J+K+L+M)'', tle)]"
    "length cash = 4 \<and> length ar = 4 \<and> length pre = 4 \<and> length fa = 4 \<and> length ta = 4 \<and>
     length ap = 4 \<and> length adv = 4 \<and> length tli = 4 \<and> length cap = 4 \<and> length ret = 4 \<and>
     length te = 4 \<and> length tle = 4"
    "cash ! 0 = 1260 \<and> ar ! 0 = 110 \<and> pre ! 0 = 6 \<and> fa ! 0 = 16 \<and> ta ! 0 = 1392 \<and>
     ap ! 0 = 120 \<and> adv ! 0 = 10 \<and> tli ! 0 = 130 \<and> cap ! 0 = 1333.52 \<and> ret ! 0 = - 71.52 \<and>
     te ! 0 = 1262 \<and> tle ! 0 = 1392"
    "\<And>i. i \<in> {1, 2, 3} \<Longrightarrow>
        ar ! i = revs ! i * receivables_ratio w \<and>
        pre ! i = costs ! i * prepayment_ratio w \<and>
        fa ! i = fa ! (i - 1) * (1 + fixed_asset_growth w) \<and>
        ap ! i = costs ! i * payables_ratio w \<and>
        adv ! i = revs ! i * advance_ratio w \<and>
        tli ! i = ap ! i + adv ! i \<and>
        cap ! i = cap ! (i - 1) + (if i = 1 then capital_increase w else 0) \<and>
        ret ! i = ret ! (i - 1) + nps ! i \<and>
        te ! i = cap ! i + ret ! i \<and>
        tle ! i = tli ! i + te ! i \<and>
        ta ! i = tli ! i + te ! i \<and>
        cash ! i = tle ! i - (ar ! i + pre ! i + fa ! i)"
proof -
  from assms have "bs_generate p w = Inr df" by (simp add: bs_section_Some)
  from bs_generate_Inr[OF this] obtain pl revs costs nps where
    a: "p = Some pl" "loc pl ''Revenue(A)'' = Inr revs" "loc pl ''Cost(B)'' = Inr costs"
       "loc pl ''Net Profit(A-B-C-D-E)'' = Inr nps"
    and l: "bs_loop revs costs nps w [1, 2, 3] (map (\<lambda>(k, v). (k, [v])) historical_bs) = Inr df"
    by blast
  from bs_loop_rows[OF l] a that show thesis by (elim exE conjE) blast
qed

lemma bs_locs:
  assumes "df = [(''Cash(F)'', cash), (''Accounts Receivable(G)'', ar), (''Prepayments(H)'', pre),
           (''Fixed Assets(I)'', fa), (''Total Assets(F+G+H+I)'', ta), (''Accounts Payable(J)'', ap),
           (''Advances from Customers(K)'', adv), (''Total Liabilities(J+K)'', tli),
           (''Share Capital(L)'', cap), (''Retained Earnings(M)'', ret), (''Total Equity(L+M)'', te),
           (''Total Liabilities & Equity(J+K+L+M)'', tle)]"
  shows "loc df ''Cash(F)'' = Inr cash" "loc df ''Accounts Receivable(G)'' = Inr ar"
    "loc df ''Prepayments(H)'' = Inr pre" "loc df ''Fixed Assets(I)'' = Inr fa"
    "loc df ''Total Assets(F+G+H+I)'' = Inr ta" "loc df ''Accounts Payable(J)'' = Inr ap"
    "loc df ''Advances from Customers(K)'' = Inr adv" "loc df ''Total Liabilities(J+K)'' = Inr tli"
    "loc df ''Share Capital(L)'' = Inr cap" "loc df ''Retained Earnings(M)'' = Inr ret"
    "loc df ''Total Equity(L+M)'' = Inr te" "loc df ''Total Liabilities & Equity(J+K+L+M)'' = Inr tle"
  unfolding assms by (simp_all add: loc_def dict_get_def)

text \<open>
  Claim C1. Every Balance Sheet that \<^verbatim>\<open>create_balance_sheet_section\<close> returns, for any P&L
  table and any assumptions, satisfies in every period \<open>i\<close> of 0..3 (the historical period 0
  included) Total Assets[i] = Total Liabilities[i] + Total Equity[i], and Cash[i] is the
  residual (Total Liabilities[i] + Total Equity[i]) - (Receivables[i] + Prepayments[i] +
  Fixed Assets[i]).
\<close>

theorem balance_sheet_identity:
  assumes "create_balance_sheet_section p w = Some df" and "i < 4"
  shows "\<exists>cash ar pre fa ta tli te.
     loc df ''Cash(F)'' = Inr cash \<and> loc df ''Accounts Receivable(G)'' = Inr ar \<and>
     loc df ''Prepayments(H)'' = Inr pre \<and> loc df ''Fixed Assets(I)'' = Inr fa \<and>
     loc df ''Total Assets(F+G+H+I)'' = Inr ta \<and> loc df ''Total Liabilities(J+K)'' = Inr tli \<and>
     loc df ''Total Equity(L+M)'' = Inr te \<and>
     ta ! i = tli ! i + te ! i \<and>
     cash ! i = (tli ! i + te ! i) - (ar ! i + pre ! i + fa ! i)"
proof (rule bs_section_rows[OF assms(1)])
  fix pl revs costs nps cash ar pre fa ta ap adv tli cap ret te tle
  assume df: "df = [(''Cash(F)'', cash), (''Accounts Receivable(G)'', ar), (''Prepayments(H)'', pre),
           (''Fixed Assets(I)'', fa), (''Total Assets(F+G+H+I)'', ta), (''Accounts Payable(J)'', ap),
           (''Advances from Customers(K)'', adv), (''Total Liabilities(J+K)'', tli),
           (''Share Capital(L)'', cap), (''Retained Earnings(M)'', ret), (''Total Equity(L+M)'', te),
           (''Total Liabilities & Equity(J+K+L+M)'', tle)]"
    and base: "cash ! 0 = 1260 \<and> ar ! 0 = 110 \<and> pre ! 0 = 6 \<and> fa ! 0 = 16 \<and> ta ! 0 = 1392 \<and>
     ap ! 0 = 120 \<and> adv ! 0 = 10 \<and> tli ! 0 = 130 \<and> cap ! 0 = 1333.52 \<and> ret ! 0 = - 71.52 \<and>
     te ! 0 = 1262 \<and> tle ! 0 = 1392"
    and step: "\<And>i. i \<in> {1, 2, 3} \<Longrightarrow>
        ar ! i = revs ! i * receivables_ratio w \<and>
        pre ! i = costs ! i * prepayment_ratio w \<and>
        fa ! i = fa ! (i - 1) * (1 + fixed_asset_growth w) \<and>
        ap ! i = costs ! i * payables_ratio w \<and>
        adv ! i = revs ! i * advance_ratio w \<and>
        tli ! i = ap ! i + adv ! i \<and>
        cap ! i = cap ! (i - 1) + (if i = 1 then capital_increase w else 0) \<and>
        ret ! i = ret ! (i - 1) + nps ! i \<and>
        te ! i = cap ! i + ret ! i \<and>
        tle ! i = tli ! i + te ! i \<and>
        ta ! i = tli ! i + te ! i \<and>
        cash ! i = tle ! i - (ar ! i + pre ! i + fa ! i)"
  have "ta ! i = tli ! i + te ! i \<and> cash ! i = (tli ! i + te ! i) - (ar ! i + pre ! i + fa ! i)"
  proof (cases "i = 0")
    case True
    with base show ?thesis by simp
  next
    case False
    with assms(2) have "i \<in> {1, 2, 3}" by auto
    from step[OF this] show ?thesis by simp
  qed
  with bs_locs[OF df] show ?thesis by blast
qed

theorem balance_sheet_identity_witness:
  "\<exists>df ta tli te. create_balance_sheet_section (Some example_data) bs_defaults = Some df \<and> (2::nat) < 4 \<and>
     loc df ''Total Assets(F+G+H+I)'' = Inr ta \<and> loc df ''Total Liabilities(J+K)'' = Inr tli \<and>
     loc df ''Total Equity(L+M)'' = Inr te \<and> ta ! 2 = tli ! 2 + te ! 2"
proof -
  obtain df where ok: "create_balance_sheet_section (Some example_data) bs_defaults = Some df"
    using bs_defaults_section by blast
  have two: "(2::nat) < 4" by simp
  from balance_sheet_identity[OF ok two] ok two show ?thesis by blast
qed









lemma bs_fixed_assets:
  assumes "create_balance_sheet_section p w = Some df"
  shows "\<exists>fa. loc df ''Fixed Assets(I)'' = Inr fa \<and>
     (\<forall>i<4. fa ! i = 16 * (1 + fixed_asset_growth w) ^ i)"
proof (rule bs_section_rows[OF assms(1)])
  fix pl revs costs nps cash ar pre fa ta ap adv tli cap ret te tle
  assume df: "df = [(''Cash(F)'', cash), (''Accounts Receivable(G)'', ar), (''Prepayments(H)'', pre),
           (''Fixed Assets(I)'', fa), (''Total Assets(F+G+H+I)'', ta), (''Accounts Payable(J)'', ap),
           (''Advances from Customers(K)'', adv), (''Total Liabilities(J+K)'', tli),
           (''Share Capital(L)'', cap), (''Retained Earnings(M)'', ret), (''Total Equity(L+M)'', te),
           (''Total Liabilities & Equity(J+K+L+M)'', tle)]"
    and base: "cash ! 0 = 1260 \<and> ar ! 0 = 110 \<and> pre ! 0 = 6 \<and> fa ! 0 = 16 \<and> ta ! 0 = 1392 \<and>
     ap ! 0 = 120 \<and> adv ! 0 = 10 \<and> tli ! 0 = 130 \<and> cap ! 0 = 1333.52 \<and> ret ! 0 = - 71.52 \<and>
     te ! 0 = 1262 \<and> tle ! 0 = 1392"
    and step: "\<And>i. i \<in> {1, 2, 3} \<Longrightarrow>
        ar ! i = revs ! i * receivables_ratio w \<and>
        pre ! i = costs ! i * prepayment_ratio w \<and>
        fa ! i = fa ! (i - 1) * (1 + fixed_asset_growth w) \<and>
        ap ! i = costs ! i * payables_ratio w \<and>
        adv ! i = revs ! i * advance_ratio w \<and>
        tli ! i = ap ! i + adv ! i \<and>
        cap ! i = cap ! (i - 1) + (if i = 1 then capital_increase w else 0) \<and>
        ret ! i = ret ! (i - 1) + nps ! i \<and>
        te ! i = cap ! i + ret ! i \<and>
        tle ! i = tli ! i + te ! i \<and>
        ta ! i = tli ! i + te ! i \<and>
        cash ! i = tle ! i - (ar ! i + pre ! i + fa ! i)"
  let ?a = "1 + fixed_asset_growth w"
  have f0: "fa ! 0 = 16" using base by simp
  have f1: "fa ! 1 = fa ! 0 * ?a" using step[of 1] by simp
  have f2: "fa ! 2 = fa ! 1 * ?a" using step[of 2] by simp
  have f3: "fa ! 3 = fa ! 2 * ?a" using step[of 3] by simp
  have "fa ! i = 16 * ?a ^ i" if "i < 4" for i
  proof -
    from that consider "i = 0" | "i = 1" | "i = 2" | "i = 3" by linarith
    then show ?thesis
      using f0 f1 f2 f3 by cases (simp_all add: power2_eq_square power3_eq_cube)
  qed
  with bs_locs(4)[OF df] show ?thesis by blast
qed

text \<open>
  Claim C9. Two runs on the same P&L table and the same assumptions except the growth rate
  of fixed assets, \<open>g1 < g2\<close> both in the slider's range 0..0.5: in every forecast period
  \<open>i\<close> of 1..3 Fixed Assets[i] is strictly larger under \<open>g2\<close>; both start from the
  historical value 16.
\<close>

theorem fixed_assets_monotone:
  assumes "create_balance_sheet_section p w = Some df1"
    and "create_balance_sheet_section p (w\<lparr>fixed_asset_growth := g2\<rparr>) = Some df2"
    and "0 \<le> fixed_asset_growth w" and "fixed_asset_growth w < g2" and "g2 \<le> 0.5"
    and "i \<in> {1, 2, 3}"
  shows "\<exists>fa1 fa2. loc df1 ''Fixed Assets(I)'' = Inr fa1 \<and> loc df2 ''Fixed Assets(I)'' = Inr fa2 \<and>
     fa1 ! 0 = 16 \<and> fa2 ! 0 = 16 \<and> fa1 ! i < fa2 ! i"
proof -
  from bs_fixed_assets[OF assms(1)] obtain fa1 where
    1: "loc df1 ''Fixed Assets(I)'' = Inr fa1" "\<forall>i<4. fa1 ! i = 16 * (1 + fixed_asset_growth w) ^ i"
    by blast
  from bs_fixed_assets[OF assms(2)] obtain fa2 where
    2: "loc df2 ''Fixed Assets(I)'' = Inr fa2" "\<forall>i<4. fa2 ! i = 16 * (1 + g2) ^ i"
    by auto
  from assms(6) have i: "0 < i" "i < 4" by auto
  have "(1 + fixed_asset_growth w) ^ i < (1 + g2) ^ i"
    using assms(3,4) i(1) by (intro power_strict_mono) simp_all
  with 1(2) 2(2) i(2) have "fa1 ! i < fa2 ! i" by simp
  moreover have "fa1 ! 0 = 16" "fa2 ! 0 = 16" using 1(2) 2(2) by simp_all
  ultimately show ?thesis using 1(1) 2(1) by blast
qed

lemma bs_lower_growth_section:
  "create_balance_sheet_section (Some example_data) (bs_defaults\<lparr>fixed_asset_growth := 0.1\<rparr>) = Some
     [(''Cash(F)'', [1260, 1815.5, 2080.655, 2385.6658]),
      (''Accounts Receivable(G)'', [110, 126.5, 145.475, 167.2957]),
      (''Prepayments(H)'', [6, 6.9, 7.935, 9.1252]),
      (''Fixed Assets(I)'', [16, 17.6, 19.36, 21.296]),
      (''Total Assets(F+G+H+I)'', [1392, 1966.5, 2253.425, 2583.3827]),
      (''Accounts Payable(J)'', [120, 138, 158.7, 182.504]),
      (''Advances from Customers(K)'', [10, 11.5, 13.225, 15.2087]),
      (''Total Liabilities(J+K)'', [130, 149.5, 171.925, 197.7127]),
      (''Share Capital(L)'', [1333.52, 1658.52, 1658.52, 1658.52]),
      (''Retained Earnings(M)'', [-71.52, 158.48, 422.98, 727.15]),
      (''Total Equity(L+M)'', [1262, 1817, 2081.5, 2385.67]),
      (''Total Liabilities & Equity(J+K+L+M)'', [1392, 1966.5, 2253.425, 2583.3827])]"
  (is "_ = Some ?T")
proof -
  have l: "bs_loop [1000, 1150, 1322.5, 1520.87] [600, 690, 793.5, 912.52] [200, 230, 264.5, 304.17]
     (bs_defaults\<lparr>fixed_asset_growth := 0.1\<rparr>) [1, 2, 3] (map (\<lambda>(k, v). (k, [v])) historical_bs) = Inr ?T"
    by (simp add: historical_bs_def and_then_Inr_iff bs_step_explicit bs_defaults_def)
  have d: "DataFrame_T ?T years = Inr ?T"
    by (simp add: DataFrame_T_def years_def)
  obtain m where m: "bs_metrics ?T = Inr m"
    by (simp add: bs_metrics_def loc_def dict_get_def py_div_def get_last_def)
  have "bs_generate (Some example_data) (bs_defaults\<lparr>fixed_asset_growth := 0.1\<rparr>) = Inr ?T"
    unfolding bs_generate_def
    by (simp only: option.case example_data_locs and_then_simps Let_def l d m)
  moreover have "bs_button (bs_defaults\<lparr>fixed_asset_growth := 0.1\<rparr>)" by (simp add: bs_defaults_def)
  ultimately show ?thesis by (simp only: bs_section_Some simp_thms)
qed

theorem fixed_assets_monotone_witness:
  "\<exists>df1 df2 fa1 fa2.
     create_balance_sheet_section (Some example_data) (bs_defaults\<lparr>fixed_asset_growth := 0.1\<rparr>) = Some df1 \<and>
     create_balance_sheet_section (Some example_data)
       (bs_defaults\<lparr>fixed_asset_growth := 0.1\<rparr>\<lparr>fixed_asset_growth := 0.2\<rparr>) = Some df2 \<and>
     (0::real) \<le> fixed_asset_growth (bs_defaults\<lparr>fixed_asset_growth := 0.1\<rparr>) \<and>
     fixed_asset_growth (bs_defaults\<lparr>fixed_asset_growth := 0.1\<rparr>) < 0.2 \<and> (0.2::real) \<le> 0.5 \<and>
     (3::nat) \<in> {1, 2, 3} \<and>
     loc df1 ''Fixed Assets(I)'' = Inr fa1 \<and> loc df2 ''Fixed Assets(I)'' = Inr fa2 \<and>
     fa1 ! 3 < fa2 ! 3"
proof -
  have same: "bs_defaults\<lparr>fixed_asset_growth := 0.1\<rparr>\<lparr>fixed_asset_growth := 0.2\<rparr> = bs_defaults"
    by (simp add: bs_defaults_def)
  obtain df2 where ok2: "create_balance_sheet_section (Some example_data)
       (bs_defaults\<lparr>fixed_asset_growth := 0.1\<rparr>\<lparr>fixed_asset_growth := 0.2\<rparr>) = Some df2"
    unfolding same using bs_defaults_section by blast
  obtain df1 where ok1: "create_balance_sheet_section (Some example_data)
       (bs_defaults\<lparr>fixed_asset_growth := 0.1\<rparr>) = Some df1"
    using bs_lower_growth_section by blast
  have h: "(0::real) \<le> fixed_asset_growth (bs_defaults\<lparr>fixed_asset_growth := 0.1\<rparr>)"
    "fixed_asset_growth (bs_defaults\<lparr>fixed_asset_growth := 0.1\<rparr>) < 0.2" "(0.2::real) \<le> 0.5"
    "(3::nat) \<in> {1, 2, 3}"
    by simp_all
  from fixed_assets_monotone[OF ok1 ok2 h] ok1 ok2 h show ?thesis by blast
qed

section \<open>Properties of the Cash Flow forecaster\<close>















section \<open>The Cash Flow statement\<close>





section \<open>The net cash flow growth metric\<close>








end
